theory Spec2Isabelle
  imports Main "HOL-Library.Word"
begin

section \<open>The MCAS shard core: lock registries, two-stage transfers, offset resolution\<close>

text \<open>
  A shallow embedding of the request handlers of \<^verbatim>\<open>Shard\<close> (shard.cpp and
  shard\_ado.cpp).  Machine integers (\<^verbatim>\<open>std::uint64_t\<close>, \<^verbatim>\<open>size_t\<close>, pointers cast
  to integers) are 64-bit words, so that subtraction wraps as it does in C++.  Logging
  (\<^verbatim>\<open>CPLOG\<close>, \<^verbatim>\<open>PWRN\<close>, ...) and the statistics counters have no effect on what
  the handlers answer and are left out.  An \<^verbatim>\<open>assert\<close> does not change what a handler
  does with a request that passes it; the one \<^verbatim>\<open>assert\<close> that guards a registry, in
  \<^verbatim>\<open>add_pending_rename\<close>, is a predicate of its own below, and the states the shard
  reaches are those reached by runs that pass it.
\<close>

type_synonym u64 = "64 word"

subsection \<open>Scatter-gather offset resolution\<close>

text \<open>\<^verbatim>\<open>::iovec\<close>: a base address and a length.\<close>

record iovec =
  iov_base :: u64
  iov_len :: u64

text \<open>\<^verbatim>\<open>protocol::Message_IO_response::locate_element\<close>: address and length.\<close>

record locate_element =
  le_addr :: u64
  le_len :: u64

record sg_result =
  sg_list :: "locate_element list"
  mr_low :: u64
  mr_high :: u64
  excess_length :: u64

text \<open>
  \<^verbatim>\<open>region_breaks\<close>: each region's base is kept, its length is replaced by the running
  sum of the lengths up to and including it.
\<close>

fun region_breaks_from :: "u64 \<Rightarrow> iovec list \<Rightarrow> iovec list" where
  "region_breaks_from offset [] = []"
| "region_breaks_from offset (i # regions) =
     \<lparr>iov_base = iov_base i, iov_len = offset + iov_len i\<rparr>
       # region_breaks_from (offset + iov_len i) regions"

definition region_breaks :: "iovec list \<Rightarrow> iovec list" where
  "region_breaks regions = region_breaks_from 0 regions"

text \<open>
  \<^verbatim>\<open>std::upper_bound\<close> over the range \<open>[first, first + len)\<close> with the comparator
  of \<^verbatim>\<open>offset_to_sg_list\<close>, \<^verbatim>\<open>a < uint64_t(b.iov_base)\<close>: the library's binary search,
  which halves the range until it is empty.  The comparator reads the break's base
  address, not its cumulative length.
\<close>

function upper_bound_base :: "iovec list \<Rightarrow> u64 \<Rightarrow> nat \<Rightarrow> nat \<Rightarrow> nat" where
  "upper_bound_base rb a first len =
     (if 0 < len then
        (if a < iov_base (rb ! (first + len div 2))
         then upper_bound_base rb a first (len div 2)
         else upper_bound_base rb a (first + len div 2 + 1) (len - len div 2 - 1))
      else first)"
  by pat_completeness auto
termination
  by (relation "measure (\<lambda>(rb, a, first, len). len)") auto

declare upper_bound_base.simps [simp del]

text \<open>
  What a run of \<^verbatim>\<open>offset_to_sg_list\<close> can end with besides a result: reading through
  an iterator equal to \<^verbatim>\<open>region_breaks_.end()\<close>.
\<close>

datatype sg_error = End_iterator_dereferenced

record sg_vars =
  begin_off :: u64
  acc_low :: u64
  acc_high :: u64
  acc_list :: "locate_element list"

text \<open>
  The loop "entries before the last": \<^verbatim>\<open>while (it_begin != it_end) { ... }\<close>.  Its body
  appends an element and resets \<^verbatim>\<open>begin_off\<close>; it does not advance \<^verbatim>\<open>it_begin\<close>.  A run
  that never leaves the loop is the value \<open>None\<close>.
\<close>

partial_function (option) sg_entries_before_last ::
  "iovec list \<Rightarrow> nat \<Rightarrow> nat \<Rightarrow> sg_vars \<Rightarrow> (sg_error + sg_vars) option" where
  "sg_entries_before_last rb it_begin it_end v =
     (if it_begin \<noteq> it_end then
        (if it_begin < length rb then
           sg_entries_before_last rb it_begin it_end
             \<lparr>begin_off = 0,
              acc_low = min (acc_low v) (iov_base (rb ! it_begin) + begin_off v),
              acc_high = max (acc_high v) (iov_base (rb ! it_begin) + iov_len (rb ! it_begin)),
              acc_list = acc_list v @
                [\<lparr>le_addr = iov_base (rb ! it_begin) + begin_off v,
                  le_len = (iov_base (rb ! it_begin) + iov_len (rb ! it_begin))
                           - (iov_base (rb ! it_begin) + begin_off v)\<rparr>]\<rparr>
         else Some (Inl End_iterator_dereferenced))
      else Some (Inr v))"

text \<open>The last entry, built from the break \<open>e\<close> that \<^verbatim>\<open>it_begin\<close> points to.\<close>

definition sg_last_entry :: "iovec \<Rightarrow> u64 \<Rightarrow> sg_vars \<Rightarrow> sg_result" where
  "sg_last_entry e end_off v =
     (let m_low = iov_base e + begin_off v;
          excess = (if iov_len e < end_off then end_off - iov_len e else 0);
          m_high = iov_base e + end_off - excess
      in \<lparr>sg_list = acc_list v @ [\<lparr>le_addr = m_low, le_len = m_high - m_low\<rparr>],
          mr_low = min (acc_low v) m_low,
          mr_high = max (acc_high v) m_high,
          excess_length = excess\<rparr>)"

definition offset_to_sg_list :: "u64 \<times> u64 \<Rightarrow> iovec list \<Rightarrow> (sg_error + sg_result) option" where
  "offset_to_sg_list t rb =
     (let it_begin = upper_bound_base rb (fst t) 0 (length rb);
          it_end = upper_bound_base rb (snd t) 0 (length rb);
          begin_off0 = fst t - (if it_begin = 0 then 0 else iov_len (rb ! (it_begin - 1)));
          end_off = snd t - (if it_end = 0 then 0 else iov_len (rb ! (it_end - 1)))
      in case sg_entries_before_last rb it_begin it_end
                \<lparr>begin_off = begin_off0, acc_low = - 1, acc_high = 0, acc_list = []\<rparr> of
           None \<Rightarrow> None
         | Some (Inl err) \<Rightarrow> Some (Inl err)
         | Some (Inr v) \<Rightarrow>
             (if it_begin < length rb
              then Some (Inr (sg_last_entry (rb ! it_begin) end_off v))
              else Some (Inl End_iterator_dereferenced)))"

text \<open>The range a LOCATE request names: \<^verbatim>\<open>[offset, offset + size)\<close>.\<close>

definition locate_range :: "u64 \<Rightarrow> u64 \<Rightarrow> u64 \<times> u64" where
  "locate_range offset sz = (offset, offset + sz)"

subsection \<open>Status codes, handles and the collaborators behind the shard\<close>

text \<open>The status codes the handlers name.\<close>

datatype status_t =
    S_OK | S_OK_CREATED
  | E_FAIL | E_INVAL | E_LOCKED | E_KEY_NOT_FOUND | E_TOO_LARGE | E_ALREADY_EXISTS
  | E_INSUFFICIENT_SPACE | E_NOT_SUPPORTED | E_BUSY | E_ALREADY_OPEN

text \<open>\<^verbatim>\<open>is_locked\<close>: only the two success codes count as a lock taken.\<close>

fun is_locked :: "status_t \<Rightarrow> bool" where
  "is_locked S_OK = True"
| "is_locked S_OK_CREATED = True"
| "is_locked E_FAIL = False"
| "is_locked E_LOCKED = False"
| "is_locked E_KEY_NOT_FOUND = False"
| "is_locked E_TOO_LARGE = False"
| "is_locked E_NOT_SUPPORTED = False"
| "is_locked rc = False"

text \<open>
  The test \<^verbatim>\<open>s < S_OK\<close> of the ADO path: the success codes are the non-negative ones,
  every error code is negative.
\<close>

definition below_S_OK :: "status_t \<Rightarrow> bool" where
  "below_S_OK rc = (rc \<noteq> S_OK \<and> rc \<noteq> S_OK_CREATED)"

type_synonym pool_t = u64
type_synonym key_t = u64

text \<open>
  Modelled from the spec: the constants \<^verbatim>\<open>IKVStore::POOL_ERROR\<close> and
  \<^verbatim>\<open>IKVStore::KEY_NONE\<close>, whose declarations are missing.  OP\_CREATE tests a pool
  handle for truth where OP\_OPEN compares it with \<^verbatim>\<open>POOL_ERROR\<close>; a key handle is a
  pointer and \<^verbatim>\<open>KEY_NONE\<close> its null.
\<close>

definition POOL_ERROR :: pool_t where
  "POOL_ERROR = 0"

definition KEY_NONE :: key_t where
  "KEY_NONE = 0"

datatype lock_type = STORE_LOCK_READ | STORE_LOCK_WRITE

datatype unlock_flags = UNLOCK_FLAGS_NONE | UNLOCK_FLAGS_FLUSH

text \<open>
  What \<^verbatim>\<open>IKVStore::lock\<close> hands back: its return code and the three out-parameters
  (value address, value length, key handle) as they stand after the call.
\<close>

record lock_reply =
  lr_status :: status_t
  lr_target :: u64
  lr_len :: u64
  lr_handle :: key_t

text \<open>
  The shard reaches its backend (\<^verbatim>\<open>_i_kvstore\<close>), the pool memory and the transport only
  through interfaces.  \<open>'w\<close> is the state of everything behind them; each operation
  takes it and returns it.  \<open>register_memory\<close> is the constructor of
  \<^verbatim>\<open>memory_registered\<close>: \<open>None\<close> when it throws, the remote key otherwise.  The
  deregistration that runs when such an object is destroyed is not traced.
\<close>

record 'w collaborators =
  kv_lock :: "pool_t \<Rightarrow> string \<Rightarrow> lock_type \<Rightarrow> u64 \<Rightarrow> 'w \<Rightarrow> lock_reply \<times> 'w"
  kv_unlock :: "pool_t \<Rightarrow> key_t \<Rightarrow> unlock_flags \<Rightarrow> 'w \<Rightarrow> status_t \<times> 'w"
  kv_swap_keys :: "pool_t \<Rightarrow> string \<Rightarrow> string \<Rightarrow> 'w \<Rightarrow> status_t \<times> 'w"
  kv_erase :: "pool_t \<Rightarrow> string \<Rightarrow> 'w \<Rightarrow> status_t \<times> 'w"
  kv_get_attribute_value_len :: "pool_t \<Rightarrow> string \<Rightarrow> 'w \<Rightarrow> status_t \<times> 'w"
  kv_create_pool :: "string \<Rightarrow> 'w \<Rightarrow> pool_t \<times> 'w"
  kv_open_pool :: "string \<Rightarrow> 'w \<Rightarrow> pool_t \<times> 'w"
  mem_read :: "u64 \<Rightarrow> u64 \<Rightarrow> 'w \<Rightarrow> 8 word list"
  mem_zero :: "u64 \<Rightarrow> u64 \<Rightarrow> 'w \<Rightarrow> 'w"
  register_memory :: "u64 \<Rightarrow> u64 \<Rightarrow> 'w \<Rightarrow> u64 option \<times> 'w"

subsection \<open>Messages and the trace of calls\<close>

text \<open>
  An IO response: status, address, remote key, announced data length and the bytes
  copied in behind the header.  A response built by \<^verbatim>\<open>respond1\<close> starts with the status
  it is given and nothing else filled in.
\<close>

record io_response =
  rsp_status :: status_t
  rsp_addr :: u64
  rsp_key :: u64
  rsp_data_len :: u64
  rsp_data :: "8 word list"

definition respond1 :: "status_t \<Rightarrow> io_response" where
  "respond1 status =
     \<lparr>rsp_status = status, rsp_addr = 0, rsp_key = 0, rsp_data_len = 0, rsp_data = []\<rparr>"

record pool_response =
  prsp_status :: status_t
  prsp_pool_id :: pool_t

text \<open>An ADO response: status and the appended payload (an error text or a value address).\<close>

datatype ado_payload = Error_text string | Value_address u64

record ado_response =
  arsp_status :: status_t
  arsp_payload :: ado_payload

text \<open>
  Every call the handlers make on a collaborator, in the order made.  The three ways a
  response leaves the shard (\<^verbatim>\<open>post_response\<close>, \<^verbatim>\<open>post_send_buffer\<close>,
  \<^verbatim>\<open>post_response2\<close> with the value as second buffer) are kept apart.
\<close>

datatype event =
    Kv_lock pool_t string lock_type u64
  | Kv_unlock pool_t key_t unlock_flags
  | Kv_swap_keys pool_t string string
  | Kv_erase pool_t string
  | Kv_get_attribute pool_t string
  | Kv_create_pool string
  | Kv_open_pool string
  | Pmem_memset u64 u64
  | Register_memory u64 u64
  | Add_index_key pool_t string
  | Preregister_regions pool_t
  | Bootstrap_ado pool_t
  | Send_work_request pool_t string key_t
  | Post_response io_response
  | Post_send_buffer io_response
  | Post_response2 io_response iovec
  | Post_pool_response pool_response
  | Post_ado_response ado_response

datatype exn = Logic_exception | Resource_unavailable | Std_exception

datatype 's outcome = Returns 's | Throws exn 's

subsection \<open>The shard's registries\<close>

text \<open>
  Modelled from the spec: the locked-value record (pool, key handle, length, registered
  memory, refcount) and the pending rename (pool, from-key, to-key), both keyed by
  target address; their declarations (shard.h) are missing.  A fresh locked-value
  record counts 0 holders, and each \<^verbatim>\<open>add_locked_value_*\<close> increments the count right
  after \<^verbatim>\<open>emplace\<close>, so a record in a registry counts at least 1.
\<close>

record lock_info =
  li_pool :: pool_t
  li_key :: key_t
  li_length :: u64
  li_mr :: u64
  li_count :: "32 word"

record rename_info =
  rn_pool :: pool_t
  rn_from :: string
  rn_to :: string

text \<open>
  Modelled from the spec: the per-session pool manager, whose class is missing.
  \<^verbatim>\<open>check_for_open_pool\<close> looks a name up, \<^verbatim>\<open>register_pool\<close> initialises the
  reference count to 1, \<^verbatim>\<open>add_reference\<close> increments it.
\<close>

record pool_manager =
  pm_open :: "string \<rightharpoonup> pool_t"
  pm_refs :: "pool_t \<Rightarrow> nat"

definition check_for_open_pool :: "pool_manager \<Rightarrow> string \<Rightarrow> pool_t option" where
  "check_for_open_pool pm name = pm_open pm name"

definition register_pool :: "string \<Rightarrow> pool_t \<Rightarrow> pool_manager \<Rightarrow> pool_manager" where
  "register_pool name pool pm =
     pm\<lparr>pm_open := (pm_open pm)(name \<mapsto> pool), pm_refs := (pm_refs pm)(pool := 1)\<rparr>"

definition add_reference :: "pool_t \<Rightarrow> pool_manager \<Rightarrow> pool_manager" where
  "add_reference pool pm = pm\<lparr>pm_refs := (pm_refs pm)(pool := pm_refs pm pool + 1)\<rparr>"

record 'w shard =
  world :: 'w
  locked_values_shared :: "u64 \<rightharpoonup> lock_info"
  locked_values_exclusive :: "u64 \<rightharpoonup> lock_info"
  pending_renames :: "u64 \<rightharpoonup> rename_info"
  pool_mgr :: pool_manager
  trace :: "event list"

definition emit :: "event \<Rightarrow> 'w shard \<Rightarrow> 'w shard" where
  "emit e s = s\<lparr>trace := trace s @ [e]\<rparr>"

text \<open>The backend and transport calls: the collaborator answers, the call is logged.\<close>

definition call_lock ::
  "'w collaborators \<Rightarrow> pool_t \<Rightarrow> string \<Rightarrow> lock_type \<Rightarrow> u64 \<Rightarrow> 'w shard \<Rightarrow> lock_reply \<times> 'w shard" where
  "call_lock I pool k ty len s =
     (fst (kv_lock I pool k ty len (world s)),
      emit (Kv_lock pool k ty len) (s\<lparr>world := snd (kv_lock I pool k ty len (world s))\<rparr>))"

definition call_unlock ::
  "'w collaborators \<Rightarrow> pool_t \<Rightarrow> key_t \<Rightarrow> unlock_flags \<Rightarrow> 'w shard \<Rightarrow> status_t \<times> 'w shard" where
  "call_unlock I pool h fl s =
     (fst (kv_unlock I pool h fl (world s)),
      emit (Kv_unlock pool h fl) (s\<lparr>world := snd (kv_unlock I pool h fl (world s))\<rparr>))"



definition call_get_attribute ::
  "'w collaborators \<Rightarrow> pool_t \<Rightarrow> string \<Rightarrow> 'w shard \<Rightarrow> status_t \<times> 'w shard" where
  "call_get_attribute I pool k s =
     (fst (kv_get_attribute_value_len I pool k (world s)),
      emit (Kv_get_attribute pool k)
        (s\<lparr>world := snd (kv_get_attribute_value_len I pool k (world s))\<rparr>))"

definition call_register ::
  "'w collaborators \<Rightarrow> u64 \<Rightarrow> u64 \<Rightarrow> 'w shard \<Rightarrow> u64 option \<times> 'w shard" where
  "call_register I target len s =
     (fst (register_memory I target len (world s)),
      emit (Register_memory target len)
        (s\<lparr>world := snd (register_memory I target len (world s))\<rparr>))"

text \<open>\<^verbatim>\<open>respond2\<close>: build the response with \<^verbatim>\<open>respond1\<close> and post it.\<close>

definition respond2 :: "status_t \<Rightarrow> 'w shard \<Rightarrow> 'w shard" where
  "respond2 status s = emit (Post_response (respond1 status)) s"

text \<open>
  \<^verbatim>\<open>add_locked_value_shared\<close> and \<^verbatim>\<open>add_locked_value_exclusive\<close>: \<^verbatim>\<open>emplace\<close> inserts
  only when the target has no record yet (an existing record keeps its pool, key
  handle, length and registration), then the count of the record found is incremented.
\<close>

definition emplace_lock_info ::
  "(u64 \<rightharpoonup> lock_info) \<Rightarrow> pool_t \<Rightarrow> key_t \<Rightarrow> u64 \<Rightarrow> u64 \<Rightarrow> u64 \<Rightarrow> lock_info" where
  "emplace_lock_info m pool h target len mr =
     (case m target of
        None \<Rightarrow> \<lparr>li_pool = pool, li_key = h, li_length = len, li_mr = mr, li_count = 0\<rparr>
      | Some i \<Rightarrow> i)"

definition add_locked_value_shared ::
  "pool_t \<Rightarrow> key_t \<Rightarrow> u64 \<Rightarrow> u64 \<Rightarrow> u64 \<Rightarrow> 'w shard \<Rightarrow> 'w shard" where
  "add_locked_value_shared pool h target len mr s =
     (let i = emplace_lock_info (locked_values_shared s) pool h target len mr
      in s\<lparr>locked_values_shared :=
             (locked_values_shared s)(target \<mapsto> i\<lparr>li_count := li_count i + 1\<rparr>)\<rparr>)"

definition add_locked_value_exclusive ::
  "pool_t \<Rightarrow> key_t \<Rightarrow> u64 \<Rightarrow> u64 \<Rightarrow> u64 \<Rightarrow> 'w shard \<Rightarrow> 'w shard" where
  "add_locked_value_exclusive pool h target len mr s =
     (let i = emplace_lock_info (locked_values_exclusive s) pool h target len mr
      in s\<lparr>locked_values_exclusive :=
             (locked_values_exclusive s)(target \<mapsto> i\<lparr>li_count := li_count i + 1\<rparr>)\<rparr>)"

text \<open>
  \<^verbatim>\<open>release_locked_value_shared\<close> and \<^verbatim>\<open>release_locked_value_exclusive\<close>: an unknown
  target throws; the last holder unlocks the backend (with flush) and erases the
  record; any other holder only decrements the count.
\<close>

definition release_locked_value_shared ::
  "'w collaborators \<Rightarrow> u64 \<Rightarrow> 'w shard \<Rightarrow> 'w shard outcome" where
  "release_locked_value_shared I target s =
     (case locked_values_shared s target of
        None \<Rightarrow> Throws Logic_exception s
      | Some i \<Rightarrow>
          if li_count i = 1 then
            Returns ((snd (call_unlock I (li_pool i) (li_key i) UNLOCK_FLAGS_FLUSH s))
                       \<lparr>locked_values_shared := (locked_values_shared s)(target := None)\<rparr>)
          else
            Returns (s\<lparr>locked_values_shared :=
                         (locked_values_shared s)(target \<mapsto> i\<lparr>li_count := li_count i - 1\<rparr>)\<rparr>))"


text \<open>\<^verbatim>\<open>add_pending_rename\<close>: \<^verbatim>\<open>emplace\<close> again, so an existing rename stays.\<close>

definition add_pending_rename ::
  "pool_t \<Rightarrow> u64 \<Rightarrow> string \<Rightarrow> string \<Rightarrow> 'w shard \<Rightarrow> 'w shard" where
  "add_pending_rename pool target from_key to_key s =
     (case pending_renames s target of
        None \<Rightarrow> s\<lparr>pending_renames :=
                   (pending_renames s)(target \<mapsto> \<lparr>rn_pool = pool, rn_from = from_key, rn_to = to_key\<rparr>)\<rparr>
      | Some old \<Rightarrow> s)"


subsection \<open>IO requests: two-stage transfers and GET\<close>

text \<open>
  The fields of \<^verbatim>\<open>protocol::Message_IO_request\<close> the handlers read.  \<open>rq_dont_stomp\<close>
  is the test \<^verbatim>\<open>msg->flags() & IKVStore::FLAGS_DONT_STOMP\<close>.
\<close>

record io_request =
  rq_pool_id :: pool_t
  rq_skey :: string
  rq_value_len :: u64
  rq_addr :: u64
  rq_dont_stomp :: bool
  rq_is_direct :: bool
  rq_is_scbe :: bool

text \<open>
  Constants of the build and of the connection: \<^verbatim>\<open>TWO_STAGE_THRESHOLD\<close>,
  \<^verbatim>\<open>handler->IO_buffer_size()\<close>, \<^verbatim>\<open>response->base_message_size()\<close> and
  \<^verbatim>\<open>ado_enabled()\<close>.
\<close>

record shard_config =
  TWO_STAGE_THRESHOLD :: u64
  IO_buffer_size :: u64
  base_message_size :: u64
  ado_enabled :: bool

text \<open>
  The destructor of \<^verbatim>\<open>locked_key\<close>: a guard that still owns its lock unlocks it (with
  the default flags) when its scope ends.  A guard whose \<^verbatim>\<open>release()\<close> was called does
  nothing, which the handlers below show by not calling this function on that path.
\<close>

definition locked_key_destroy :: "'w collaborators \<Rightarrow> pool_t \<Rightarrow> key_t \<Rightarrow> 'w shard \<Rightarrow> 'w shard" where
  "locked_key_destroy I pool h s = snd (call_unlock I pool h UNLOCK_FLAGS_NONE s)"

definition pending_key :: "string \<Rightarrow> string" where
  "pending_key actual_key = ''___pending_'' @ actual_key"

text \<open>
  PUT\_ADVANCE.  The guard is built right after the lock call, whatever the call
  returned, and lives to the end of the handler.
\<close>

definition io_response_put_advance ::
  "'w collaborators \<Rightarrow> io_request \<Rightarrow> 'w shard \<Rightarrow> 'w shard" where
  "io_response_put_advance I msg s =
     (if rq_dont_stomp msg then respond2 E_INVAL s
      else
        (let (r, s1) = call_lock I (rq_pool_id msg) (pending_key (rq_skey msg))
                         STORE_LOCK_WRITE (rq_value_len msg) s;
             status0 = (if \<not> is_locked (lr_status r) \<or> lr_handle r = KEY_NONE then E_FAIL else S_OK);
             status = (if lr_len r \<noteq> rq_value_len msg then E_INVAL else status0)
         in if status \<noteq> S_OK then
              locked_key_destroy I (rq_pool_id msg) (lr_handle r) (respond2 status s1)
            else
              (case call_register I (lr_target r) (lr_len r) s1 of
                 (Some mr_key, s2) \<Rightarrow>
                   emit (Post_send_buffer
                           ((respond1 S_OK)\<lparr>rsp_addr := lr_target r, rsp_key := mr_key\<rparr>))
                     (add_pending_rename (rq_pool_id msg) (lr_target r)
                        (pending_key (rq_skey msg)) (rq_skey msg)
                        (add_locked_value_exclusive (rq_pool_id msg) (lr_handle r)
                           (lr_target r) (lr_len r) mr_key s2))
               | (None, s2) \<Rightarrow>
                   locked_key_destroy I (rq_pool_id msg) (lr_handle r)
                     (emit (Post_send_buffer
                              ((respond1 E_FAIL)\<lparr>rsp_addr := lr_target r, rsp_key := 0\<rparr>)) s2))))"

text \<open>GET\_LOCATE.  The guard lives in the branch taken after a successful lock.\<close>

definition io_response_get_locate ::
  "'w collaborators \<Rightarrow> io_request \<Rightarrow> 'w shard \<Rightarrow> 'w shard" where
  "io_response_get_locate I msg s =
     (let (r, s1) = call_lock I (rq_pool_id msg) (rq_skey msg) STORE_LOCK_READ 0 s;
          status0 = (if \<not> is_locked (lr_status r) then E_FAIL else S_OK);
          status = (if lr_handle r = KEY_NONE then E_FAIL else status0)
      in if status \<noteq> S_OK then respond2 status s1
         else
           (case call_register I (lr_target r) (lr_len r) s1 of
              (Some mr_key, s2) \<Rightarrow>
                emit (Post_send_buffer
                        ((respond1 S_OK)\<lparr>rsp_addr := lr_target r, rsp_key := mr_key,
                                          rsp_data_len := lr_len r\<rparr>))
                  (add_locked_value_shared (rq_pool_id msg) (lr_handle r)
                     (lr_target r) (lr_len r) mr_key s2)
            | (None, s2) \<Rightarrow>
                locked_key_destroy I (rq_pool_id msg) (lr_handle r)
                  (emit (Post_send_buffer
                           ((respond1 E_FAIL)\<lparr>rsp_addr := lr_target r, rsp_key := 0,
                                               rsp_data_len := lr_len r\<rparr>)) s2)))"

text \<open>GET\_RELEASE.\<close>

definition io_response_get_release ::
  "'w collaborators \<Rightarrow> io_request \<Rightarrow> 'w shard \<Rightarrow> 'w shard" where
  "io_response_get_release I msg s =
     (case release_locked_value_shared I (rq_addr msg) s of
        Returns s1 \<Rightarrow> respond2 S_OK s1
      | Throws e s1 \<Rightarrow> respond2 E_INVAL s1)"

text \<open>PUT\_LOCATE.\<close>

definition io_response_put_locate ::
  "'w collaborators \<Rightarrow> io_request \<Rightarrow> 'w shard \<Rightarrow> 'w shard" where
  "io_response_put_locate I msg s =
     (if rq_dont_stomp msg then respond2 E_INVAL s
      else
        (let (r, s1) = call_lock I (rq_pool_id msg) (pending_key (rq_skey msg))
                         STORE_LOCK_WRITE (rq_value_len msg) s;
             status0 = (if \<not> is_locked (lr_status r) then E_FAIL else S_OK);
             status = (if lr_handle r = KEY_NONE then E_INVAL else status0)
         in if status \<noteq> S_OK then respond2 status s1
            else
              (case call_register I (lr_target r) (lr_len r) s1 of
                 (Some mr_key, s2) \<Rightarrow>
                   emit (Post_send_buffer
                           ((respond1 S_OK)\<lparr>rsp_addr := lr_target r, rsp_key := mr_key\<rparr>))
                     (add_pending_rename (rq_pool_id msg) (lr_target r)
                        (pending_key (rq_skey msg)) (rq_skey msg)
                        (add_locked_value_exclusive (rq_pool_id msg) (lr_handle r)
                           (lr_target r) (lr_len r) mr_key s2))
               | (None, s2) \<Rightarrow>
                   locked_key_destroy I (rq_pool_id msg) (lr_handle r)
                     (emit (Post_send_buffer
                              ((respond1 E_FAIL)\<lparr>rsp_addr := lr_target r, rsp_key := 0\<rparr>)) s2))))"


text \<open>
  GET.  Three answers after a successful read lock: the value inline behind the header,
  header and value as two buffers of one post, or a refusal.
\<close>

definition io_response_get ::
  "'w collaborators \<Rightarrow> shard_config \<Rightarrow> io_request \<Rightarrow> 'w shard \<Rightarrow> 'w shard" where
  "io_response_get I cfg msg s =
     (if rq_is_scbe msg then respond2 S_OK s
      else
        (let (r, s1) = call_lock I (rq_pool_id msg) (rq_skey msg) STORE_LOCK_READ 0 s in
         if \<not> is_locked (lr_status r) \<or> lr_handle r = KEY_NONE then respond2 (lr_status r) s1
         else if \<not> rq_is_direct msg \<and> lr_len r < TWO_STAGE_THRESHOLD cfg then
           emit (Post_response
                   ((respond1 S_OK)\<lparr>rsp_data_len := lr_len r,
                                     rsp_data := mem_read I (lr_target r) (lr_len r) (world s1)\<rparr>))
             (snd (call_unlock I (rq_pool_id msg) (lr_handle r) UNLOCK_FLAGS_FLUSH s1))
         else if rq_value_len msg < lr_len r then
           respond2 E_INSUFFICIENT_SPACE
             (snd (call_unlock I (rq_pool_id msg) (lr_handle r) UNLOCK_FLAGS_NONE s1))
         else
           (case call_register I (lr_target r) (lr_len r) s1 of
              (Some mr_key, s2) \<Rightarrow>
                (let s3 = add_locked_value_shared (rq_pool_id msg) (lr_handle r)
                            (lr_target r) (lr_len r) mr_key s2
                 in if \<not> rq_is_direct msg
                       \<and> lr_len r \<le> IO_buffer_size cfg - base_message_size cfg
                    then emit (Post_response2 ((respond1 S_OK)\<lparr>rsp_data_len := lr_len r\<rparr>)
                                 \<lparr>iov_base = lr_target r, iov_len = lr_len r\<rparr>) s3
                    else respond2 E_TOO_LARGE s3)
            | (None, s2) \<Rightarrow>
                locked_key_destroy I (rq_pool_id msg) (lr_handle r) (respond2 E_FAIL s2))))"

subsection \<open>Pool requests\<close>

text \<open>
  OP\_CREATE and OP\_OPEN of \<^verbatim>\<open>process_message_pool_request\<close>; OP\_CLOSE and OP\_DELETE
  are outside this development, so the operation type has the two cases only.
  \<open>prq_create_only\<close> is the test \<^verbatim>\<open>msg->flags() & IMCAS::ADO_FLAG_CREATE_ONLY\<close>.
  The pool size, flags and expected object count of the request go to the backend and
  the pool manager with the name and decide nothing here.  Where \<^verbatim>\<open>create_pool\<close> fails,
  OP\_CREATE passes the pool constant \<^verbatim>\<open>IKVStore::POOL_ERROR\<close> to \<^verbatim>\<open>set_status\<close>: the
  status set is the number 0, which is \<^verbatim>\<open>S_OK\<close>.
\<close>

datatype pool_op = OP_CREATE | OP_OPEN

record pool_request =
  prq_op :: pool_op
  prq_pool_name :: string
  prq_create_only :: bool

text \<open>
  The response is constructed in a send buffer that was just filled with zeros, and its
  status is set to \<^verbatim>\<open>S_OK\<close> before the operation is looked at.
\<close>

definition fresh_pool_response :: pool_response where
  "fresh_pool_response = \<lparr>prsp_status = S_OK, prsp_pool_id = 0\<rparr>"

definition call_create_pool :: "'w collaborators \<Rightarrow> string \<Rightarrow> 'w shard \<Rightarrow> pool_t \<times> 'w shard" where
  "call_create_pool I name s =
     (fst (kv_create_pool I name (world s)),
      emit (Kv_create_pool name) (s\<lparr>world := snd (kv_create_pool I name (world s))\<rparr>))"

definition call_open_pool :: "'w collaborators \<Rightarrow> string \<Rightarrow> 'w shard \<Rightarrow> pool_t \<times> 'w shard" where
  "call_open_pool I name s =
     (fst (kv_open_pool I name (world s)),
      emit (Kv_open_pool name) (s\<lparr>world := snd (kv_open_pool I name (world s))\<rparr>))"

text \<open>\<^verbatim>\<open>conditional_bootstrap_ado_process\<close>, called under the guard each operation writes.\<close>

definition bootstrap_ado_if :: "bool \<Rightarrow> pool_t \<Rightarrow> 'w shard \<Rightarrow> 'w shard" where
  "bootstrap_ado_if guard pool s = (if guard then emit (Bootstrap_ado pool) s else s)"

definition process_message_pool_request ::
  "'w collaborators \<Rightarrow> shard_config \<Rightarrow> pool_request \<Rightarrow> 'w shard \<Rightarrow> 'w shard" where
  "process_message_pool_request I cfg msg s =
     (case prq_op msg of
        OP_CREATE \<Rightarrow>
          (case check_for_open_pool (pool_mgr s) (prq_pool_name msg) of
             Some pool \<Rightarrow>
               (if prq_create_only msg then
                  emit (Post_pool_response
                          (fresh_pool_response\<lparr>prsp_pool_id := POOL_ERROR, prsp_status := E_FAIL\<rparr>))
                    (bootstrap_ado_if (pool \<noteq> 0 \<and> ado_enabled cfg) pool s)
                else
                  emit (Post_pool_response fresh_pool_response)
                    (bootstrap_ado_if (pool \<noteq> 0 \<and> ado_enabled cfg) pool
                       (s\<lparr>pool_mgr := add_reference pool (pool_mgr s)\<rparr>)))
           | None \<Rightarrow>
               (let (pool, s1) = call_create_pool I (prq_pool_name msg) s in
                if pool = POOL_ERROR then
                  emit (Post_pool_response
                          (fresh_pool_response\<lparr>prsp_pool_id := 0, prsp_status := S_OK\<rparr>))
                    (bootstrap_ado_if (pool \<noteq> 0 \<and> ado_enabled cfg) pool
                       (emit (Preregister_regions pool) s1))
                else
                  emit (Post_pool_response
                          (fresh_pool_response\<lparr>prsp_pool_id := pool, prsp_status := S_OK\<rparr>))
                    (bootstrap_ado_if (pool \<noteq> 0 \<and> ado_enabled cfg) pool
                       (emit (Preregister_regions pool)
                          (s1\<lparr>pool_mgr := register_pool (prq_pool_name msg) pool (pool_mgr s1)\<rparr>)))))
      | OP_OPEN \<Rightarrow>
          (case check_for_open_pool (pool_mgr s) (prq_pool_name msg) of
             Some pool \<Rightarrow>
               emit (Post_pool_response (fresh_pool_response\<lparr>prsp_pool_id := pool\<rparr>))
                 (bootstrap_ado_if (pool \<noteq> POOL_ERROR \<and> ado_enabled cfg) pool
                    (s\<lparr>pool_mgr := add_reference pool (pool_mgr s)\<rparr>))
           | None \<Rightarrow>
               (let (pool, s1) = call_open_pool I (prq_pool_name msg) s in
                if pool = POOL_ERROR then
                  emit (Post_pool_response
                          (fresh_pool_response\<lparr>prsp_pool_id := 0, prsp_status := E_INVAL\<rparr>))
                    (bootstrap_ado_if (pool \<noteq> POOL_ERROR \<and> ado_enabled cfg) pool s1)
                else
                  emit (Post_pool_response (fresh_pool_response\<lparr>prsp_pool_id := pool\<rparr>))
                    (bootstrap_ado_if (pool \<noteq> POOL_ERROR \<and> ado_enabled cfg) pool
                       (s1\<lparr>pool_mgr := register_pool (prq_pool_name msg) pool (pool_mgr s1)\<rparr>)))))"

subsection \<open>ADO requests\<close>

datatype ado_flag = ADO_FLAG_CREATE_ONLY | ADO_FLAG_READ_ONLY | ADO_FLAG_DETACHED

text \<open>
  The fields of \<^verbatim>\<open>protocol::Message_ado_request\<close> the handler reads; \<open>f \<in> arq_flags msg\<close>
  is the test \<^verbatim>\<open>msg->flags & f\<close>.
\<close>

record ado_request =
  arq_pool_id :: pool_t
  arq_flags :: "ado_flag set"
  arq_key :: string
  arq_ondemand_val_len :: u64

text \<open>\<^verbatim>\<open>error_func\<close>: an ADO response with the status and the message text.\<close>

definition error_func :: "status_t \<Rightarrow> string \<Rightarrow> 'w shard \<Rightarrow> 'w shard" where
  "error_func status message s =
     emit (Post_ado_response \<lparr>arsp_status = status, arsp_payload = Error_text message\<rparr>) s"

definition call_memset :: "'w collaborators \<Rightarrow> u64 \<Rightarrow> u64 \<Rightarrow> 'w shard \<Rightarrow> 'w shard" where
  "call_memset I target len s =
     emit (Pmem_memset target len) (s\<lparr>world := mem_zero I target len (world s)\<rparr>)"

definition ado_lock_type :: "ado_request \<Rightarrow> lock_type" where
  "ado_lock_type msg =
     (if ADO_FLAG_READ_ONLY \<in> arq_flags msg then STORE_LOCK_READ else STORE_LOCK_WRITE)"

text \<open>
  \<^verbatim>\<open>process_ado_request\<close>.  The handler's body is one \<^verbatim>\<open>try\<close> block whose handlers log
  and return, so a \<^verbatim>\<open>Logic_exception\<close> thrown inside ends the request with no response.
  The text appended for a disabled ADO also names the manager and the plugin count,
  which are left out here.
\<close>

definition process_ado_request ::
  "'w collaborators \<Rightarrow> shard_config \<Rightarrow> ado_request \<Rightarrow> 'w shard \<Rightarrow> 'w shard" where
  "process_ado_request I cfg msg s =
     (if \<not> ado_enabled cfg then error_func E_INVAL ''ADO!NOT_ENABLED'' s
      else if ADO_FLAG_DETACHED \<in> arq_flags msg then error_func E_INVAL ''ADO!INVALID_ARGS'' s
      else if ADO_FLAG_CREATE_ONLY \<in> arq_flags msg then
        (let (rc, s1) = call_get_attribute I (arq_pool_id msg) (arq_key msg) s in
         if rc \<noteq> E_KEY_NOT_FOUND then error_func E_ALREADY_EXISTS ''ADO!ALREADY_EXISTS'' s1
         else
           (let (r, s2) = call_lock I (arq_pool_id msg) (arq_key msg) (ado_lock_type msg)
                            (arq_ondemand_val_len msg) s1 in
            if below_S_OK (lr_status r) then
              error_func E_LOCKED (''ADO!ALREADY_LOCKED('' @ arq_key msg @ '')'') s2
            else
              (let s3 = call_memset I (lr_target r) (lr_len r) s2;
                   (rc_unlock, s4) = call_unlock I (arq_pool_id msg) (lr_handle r) UNLOCK_FLAGS_NONE s3
               in if rc_unlock \<noteq> S_OK then s4
                  else emit (Post_ado_response
                               \<lparr>arsp_status = S_OK, arsp_payload = Value_address (lr_target r)\<rparr>) s4)))
      else if arq_key msg \<noteq> [] then
        (let (r, s1) = call_lock I (arq_pool_id msg) (arq_key msg) (ado_lock_type msg)
                         (arq_ondemand_val_len msg) s in
         if below_S_OK (lr_status r) then
           error_func E_LOCKED (''ADO!ALREADY_LOCKED('' @ arq_key msg @ '')'') s1
         else if lr_handle r = KEY_NONE then s1
         else emit (Send_work_request (arq_pool_id msg) (arq_key msg) (lr_handle r)) s1)
      else emit (Send_work_request (arq_pool_id msg) (arq_key msg) KEY_NONE) s)"

subsection \<open>The main loop's message dispatch\<close>

text \<open>
  One session of the main loop's iteration over the handlers, from the \<^verbatim>\<open>try\<close> that
  peeks the pending message to its two \<^verbatim>\<open>catch\<close> clauses.  \<open>process\<close> is the switch
  over the message type with the handler it calls.  \<open>dispatched\<close> logs the messages
  handed to \<open>process\<close>, \<open>freed_buffers\<close> those passed to \<^verbatim>\<open>free_buffer\<close>.
  \<^verbatim>\<open>peek_pending_msg\<close> reads the head of the queue and \<^verbatim>\<open>pop_pending_msg\<close> takes it off.
\<close>

record 'm connection =
  pending_msgs :: "'m list"
  freed_buffers :: "'m list"
  dispatched :: "'m list"

definition dispatch_pending ::
  "('m \<Rightarrow> 's \<Rightarrow> 's outcome) \<Rightarrow> 'm connection \<Rightarrow> 's \<Rightarrow> ('m connection \<times> 's) outcome" where
  "dispatch_pending process c s =
     (case pending_msgs c of
        [] \<Rightarrow> Returns (c, s)
      | p_msg # rest \<Rightarrow>
          (case process p_msg s of
             Returns s1 \<Rightarrow>
               Returns (c\<lparr>pending_msgs := rest,
                          freed_buffers := freed_buffers c @ [p_msg],
                          dispatched := dispatched c @ [p_msg]\<rparr>, s1)
           | Throws e s1 \<Rightarrow>
               (if e = Resource_unavailable
                then Returns (c\<lparr>dispatched := dispatched c @ [p_msg]\<rparr>, s1)
                else Throws e (c\<lparr>dispatched := dispatched c @ [p_msg]\<rparr>, s1))))"

text \<open>The iteration over all sessions of one tick; an exception that is rethrown ends it.\<close>

fun iterate_handlers ::
  "('m \<Rightarrow> 's \<Rightarrow> 's outcome) \<Rightarrow> 'm connection list \<Rightarrow> 's \<Rightarrow> ('m connection list \<times> 's) outcome" where
  "iterate_handlers process [] s = Returns ([], s)"
| "iterate_handlers process (c # cs) s =
     (case dispatch_pending process c s of
        Throws e (c1, s1) \<Rightarrow> Throws e (c1 # cs, s1)
      | Returns (c1, s1) \<Rightarrow>
          (case iterate_handlers process cs s1 of
             Returns (cs2, s2) \<Rightarrow> Returns (c1 # cs2, s2)
           | Throws e (cs2, s2) \<Rightarrow> Throws e (c1 # cs2, s2)))"

text \<open>The state a run ends in, returned or thrown.\<close>

fun result_state :: "'s outcome \<Rightarrow> 's" where
  "result_state (Returns s) = s"
| "result_state (Throws e s) = s"

subsection \<open>The states the shard reaches\<close>






subsection \<open>A concrete backend for runs on explicit inputs\<close>

text \<open>
  Modelled from the spec: a backend and transport behind the interface (the stores and
  the fabric themselves are missing).  One pool of keys, each with the place and length
  of its value; byte-addressed memory; \<open>lock\<close> hands out the value's address as key
  handle and creates a missing key of the requested length when that is not zero.
  Locks are held per value: a write lock is refused while the value is locked in any
  way, a read lock while it is write-locked (a collision is a lock failure), and each
  unlock gives back one lock.  A locked key cannot be erased.  Registration throws
  when \<open>ms_reg_throws\<close>.
\<close>

record store =
  ms_slots :: "(string \<times> iovec) list"
  ms_next :: u64
  ms_memory :: "u64 \<Rightarrow> 8 word"
  ms_reg_throws :: bool
  ms_writers :: "u64 list"
  ms_readers :: "u64 list"

definition store_grant :: "lock_type \<Rightarrow> u64 \<Rightarrow> store \<Rightarrow> store" where
  "store_grant ty a w =
     (case ty of
        STORE_LOCK_WRITE \<Rightarrow> w\<lparr>ms_writers := a # ms_writers w\<rparr>
      | STORE_LOCK_READ \<Rightarrow> w\<lparr>ms_readers := a # ms_readers w\<rparr>)"

definition store_lock :: "pool_t \<Rightarrow> string \<Rightarrow> lock_type \<Rightarrow> u64 \<Rightarrow> store \<Rightarrow> lock_reply \<times> store" where
  "store_lock pool k ty len w =
     (case map_of (ms_slots w) k of
        Some v \<Rightarrow>
          if iov_base v \<in> set (ms_writers w)
             \<or> (ty = STORE_LOCK_WRITE \<and> iov_base v \<in> set (ms_readers w))
          then (\<lparr>lr_status = E_LOCKED, lr_target = 0, lr_len = len, lr_handle = KEY_NONE\<rparr>, w)
          else
            (\<lparr>lr_status = S_OK, lr_target = iov_base v, lr_len = iov_len v, lr_handle = iov_base v\<rparr>,
             store_grant ty (iov_base v) w)
      | None \<Rightarrow>
          if len = 0 then
            (\<lparr>lr_status = E_KEY_NOT_FOUND, lr_target = 0, lr_len = 0, lr_handle = KEY_NONE\<rparr>, w)
          else
            (\<lparr>lr_status = S_OK_CREATED, lr_target = ms_next w, lr_len = len, lr_handle = ms_next w\<rparr>,
             store_grant ty (ms_next w)
               (w\<lparr>ms_slots := (k, \<lparr>iov_base = ms_next w, iov_len = len\<rparr>) # ms_slots w,
                  ms_next := ms_next w + len\<rparr>)))"

definition store_unlock :: "pool_t \<Rightarrow> key_t \<Rightarrow> unlock_flags \<Rightarrow> store \<Rightarrow> status_t \<times> store" where
  "store_unlock pool h fl w =
     (if h \<in> set (ms_writers w) then (S_OK, w\<lparr>ms_writers := remove1 h (ms_writers w)\<rparr>)
      else if h \<in> set (ms_readers w) then (S_OK, w\<lparr>ms_readers := remove1 h (ms_readers w)\<rparr>)
      else (E_INVAL, w))"

definition store_swap_keys :: "pool_t \<Rightarrow> string \<Rightarrow> string \<Rightarrow> store \<Rightarrow> status_t \<times> store" where
  "store_swap_keys pool a b w =
     (case (map_of (ms_slots w) a, map_of (ms_slots w) b) of
        (Some va, Some vb) \<Rightarrow>
          (S_OK, w\<lparr>ms_slots := map (\<lambda>(k, v). if k = a then (k, vb)
                                               else if k = b then (k, va) else (k, v))
                                     (ms_slots w)\<rparr>)
      | other \<Rightarrow> (E_KEY_NOT_FOUND, w))"

definition store_erase :: "pool_t \<Rightarrow> string \<Rightarrow> store \<Rightarrow> status_t \<times> store" where
  "store_erase pool k w =
     (case map_of (ms_slots w) k of
        Some v \<Rightarrow>
          if iov_base v \<in> set (ms_writers w) \<or> iov_base v \<in> set (ms_readers w)
          then (E_LOCKED, w)
          else (S_OK, w\<lparr>ms_slots := filter (\<lambda>(k1, v1). k1 \<noteq> k) (ms_slots w)\<rparr>)
      | None \<Rightarrow> (E_KEY_NOT_FOUND, w))"

definition store_get_attribute :: "pool_t \<Rightarrow> string \<Rightarrow> store \<Rightarrow> status_t \<times> store" where
  "store_get_attribute pool k w =
     (case map_of (ms_slots w) k of Some v \<Rightarrow> (S_OK, w) | None \<Rightarrow> (E_KEY_NOT_FOUND, w))"

definition store_read :: "u64 \<Rightarrow> u64 \<Rightarrow> store \<Rightarrow> 8 word list" where
  "store_read base len w = map (\<lambda>i. ms_memory w (base + of_nat i)) [0..<unat len]"

definition store_zero :: "u64 \<Rightarrow> u64 \<Rightarrow> store \<Rightarrow> store" where
  "store_zero base len w =
     w\<lparr>ms_memory := (\<lambda>a. if a - base < len then 0 else ms_memory w a)\<rparr>"

definition store_register :: "u64 \<Rightarrow> u64 \<Rightarrow> store \<Rightarrow> u64 option \<times> store" where
  "store_register base len w = (if ms_reg_throws w then (None, w) else (Some 7, w))"

definition store_itf :: "store collaborators" where
  "store_itf =
     \<lparr>kv_lock = store_lock,
      kv_unlock = store_unlock,
      kv_swap_keys = store_swap_keys,
      kv_erase = store_erase,
      kv_get_attribute_value_len = store_get_attribute,
      kv_create_pool = (\<lambda>name w. (1, w)),
      kv_open_pool = (\<lambda>name w. (1, w)),
      mem_read = store_read,
      mem_zero = store_zero,
      register_memory = store_register\<rparr>"

definition empty_pool_manager :: pool_manager where
  "empty_pool_manager = \<lparr>pm_open = Map.empty, pm_refs = (\<lambda>pool. 0)\<rparr>"

text \<open>A shard with empty registries and an empty trace on top of a given store.\<close>

definition fresh_shard :: "store \<Rightarrow> store shard" where
  "fresh_shard w =
     \<lparr>world = w, locked_values_shared = Map.empty, locked_values_exclusive = Map.empty,
      pending_renames = Map.empty, pool_mgr = empty_pool_manager, trace = []\<rparr>"

text \<open>The statuses of the IO responses a trace posts, in order.\<close>

fun posted_statuses :: "event list \<Rightarrow> status_t list" where
  "posted_statuses [] = []"
| "posted_statuses (Post_response r # es) = rsp_status r # posted_statuses es"
| "posted_statuses (Post_send_buffer r # es) = rsp_status r # posted_statuses es"
| "posted_statuses (Post_response2 r v # es) = rsp_status r # posted_statuses es"
| "posted_statuses (e # es) = posted_statuses es"

text \<open>
  An unlock is issued before any response is posted: the first event of the trace that
  is an unlock or a post is an unlock.
\<close>

fun unlocked_before_posting :: "event list \<Rightarrow> bool" where
  "unlocked_before_posting [] = False"
| "unlocked_before_posting (Kv_unlock pool h fl # es) = True"
| "unlocked_before_posting (Post_response r # es) = False"
| "unlocked_before_posting (Post_send_buffer r # es) = False"
| "unlocked_before_posting (Post_response2 r v # es) = False"
| "unlocked_before_posting (Post_pool_response r # es) = False"
| "unlocked_before_posting (Post_ado_response r # es) = False"
| "unlocked_before_posting (e # es) = unlocked_before_posting es"

subsection \<open>Explicit inputs\<close>

text \<open>
  A store holding key \<open>k\<close> with a 32-byte value at address \<open>0x1000\<close>, and the same store
  on a transport whose memory registration throws.
\<close>

definition store_k :: store where
  "store_k =
     \<lparr>ms_slots = [(''k'', \<lparr>iov_base = 0x1000, iov_len = 32\<rparr>)], ms_next = 0x2000,
      ms_memory = (\<lambda>a. 0xAA), ms_reg_throws = False, ms_writers = [], ms_readers = []\<rparr>"

definition store_k_no_registration :: store where
  "store_k_no_registration = store_k\<lparr>ms_reg_throws := True\<rparr>"

text \<open>A store in which the sentinel of key \<open>k\<close> already has an 8-byte slot.\<close>

definition store_pending_k :: store where
  "store_pending_k =
     \<lparr>ms_slots = [(''___pending_k'', \<lparr>iov_base = 0x1000, iov_len = 8\<rparr>)], ms_next = 0x2000,
      ms_memory = (\<lambda>a. 0xAA), ms_reg_throws = False, ms_writers = [], ms_readers = []\<rparr>"

definition store_empty :: store where
  "store_empty =
     \<lparr>ms_slots = [], ms_next = 0x1000, ms_memory = (\<lambda>a. 0xAA), ms_reg_throws = False,
      ms_writers = [], ms_readers = []\<rparr>"

text \<open>
  Inline below 16 bytes; send buffers of 24 bytes with an 8-byte header, so at most 16
  bytes of value travel as second buffer.
\<close>

definition small_config :: shard_config where
  "small_config =
     \<lparr>TWO_STAGE_THRESHOLD = 16, IO_buffer_size = 24, base_message_size = 8, ado_enabled = True\<rparr>"

text \<open>
  An IO request on key \<open>k\<close> of pool 1 that announces \<open>n\<close> bytes, and a release request
  for a target address.
\<close>

definition request_k :: "u64 \<Rightarrow> io_request" where
  "request_k n =
     \<lparr>rq_pool_id = 1, rq_skey = ''k'', rq_value_len = n, rq_addr = 0,
      rq_dont_stomp = False, rq_is_direct = False, rq_is_scbe = False\<rparr>"

definition release_request :: "u64 \<Rightarrow> io_request" where
  "release_request target =
     \<lparr>rq_pool_id = 1, rq_skey = [], rq_value_len = 0, rq_addr = target,
      rq_dont_stomp = False, rq_is_direct = False, rq_is_scbe = False\<rparr>"

text \<open>A session whose pool manager has pool \<open>P\<close> open under handle 5 with one reference.\<close>

definition shard_pool_open :: "store shard" where
  "shard_pool_open =
     (fresh_shard store_empty)
       \<lparr>pool_mgr := register_pool ''P'' 5 empty_pool_manager\<rparr>"

definition create_only_k :: ado_request where
  "create_only_k =
     \<lparr>arq_pool_id = 1, arq_flags = {ADO_FLAG_CREATE_ONLY}, arq_key = ''k'',
      arq_ondemand_val_len = 4\<rparr>"

text \<open>
  A handler that needs a send buffer: with none free it throws
  \<^verbatim>\<open>resource_unavailable\<close>, otherwise it takes one and returns.
\<close>

definition buffer_process :: "nat \<Rightarrow> nat \<Rightarrow> nat outcome" where
  "buffer_process m free_buffers =
     (if free_buffers = 0 then Throws Resource_unavailable free_buffers
      else Returns (free_buffers - 1))"

section \<open>Properties\<close>

subsection \<open>GET\<close>

text \<open>
  Claim C10.  A GET of an existing key on the two-stage path (the request is marked
  direct, or the value is at least \<^verbatim>\<open>TWO_STAGE_THRESHOLD\<close> long) whose announced buffer
  is shorter than the stored value: the backend unlocks the read lock right after it
  was taken, then a response with status \<^verbatim>\<open>E_INSUFFICIENT_SPACE\<close> and nothing else is
  posted.  The handler changes what is behind the backend by exactly the lock and the
  unlock, and nothing else of the shard: no lock registry gets an entry.
\<close>

theorem get_two_stage_insufficient_space:
  assumes "\<not> rq_is_scbe msg"
    and "kv_lock I (rq_pool_id msg) (rq_skey msg) STORE_LOCK_READ 0 (world s) = (r, w1)"
    and "is_locked (lr_status r)"
    and "lr_handle r \<noteq> KEY_NONE"
    and "rq_is_direct msg \<or> TWO_STAGE_THRESHOLD cfg \<le> lr_len r"
    and "rq_value_len msg < lr_len r"
  shows "io_response_get I cfg msg s =
           s\<lparr>world := snd (kv_unlock I (rq_pool_id msg) (lr_handle r) UNLOCK_FLAGS_NONE w1),
             trace := trace s @
               [Kv_lock (rq_pool_id msg) (rq_skey msg) STORE_LOCK_READ 0,
                Kv_unlock (rq_pool_id msg) (lr_handle r) UNLOCK_FLAGS_NONE,
                Post_response
                  \<lparr>rsp_status = E_INSUFFICIENT_SPACE, rsp_addr = 0, rsp_key = 0,
                   rsp_data_len = 0, rsp_data = []\<rparr>]\<rparr>
         \<and> locked_values_shared (io_response_get I cfg msg s) = locked_values_shared s
         \<and> locked_values_exclusive (io_response_get I cfg msg s) = locked_values_exclusive s"
  using assms
  by (auto simp add: io_response_get_def call_lock_def call_unlock_def respond2_def respond1_def
        emit_def Let_def split_def)

theorem get_two_stage_insufficient_space_witness:
  "io_response_get store_itf small_config (request_k 8) (fresh_shard store_k) =
     (fresh_shard store_k)
       \<lparr>trace := [Kv_lock 1 ''k'' STORE_LOCK_READ 0, Kv_unlock 1 0x1000 UNLOCK_FLAGS_NONE,
                  Post_response
                    \<lparr>rsp_status = E_INSUFFICIENT_SPACE, rsp_addr = 0, rsp_key = 0,
                     rsp_data_len = 0, rsp_data = []\<rparr>]\<rparr>
   \<and> ms_readers (world (io_response_get store_itf small_config (request_k 8)
                          (fresh_shard store_k))) = []
   \<and> locked_values_shared
        (io_response_get store_itf small_config (request_k 8) (fresh_shard store_k)) = Map.empty"
proof -
  let ?r = "\<lparr>lr_status = S_OK, lr_target = 0x1000, lr_len = 32, lr_handle = 0x1000\<rparr>"
  have h1: "\<not> rq_is_scbe (request_k 8)"
    by (simp add: request_k_def)
  have h2: "kv_lock store_itf (rq_pool_id (request_k 8)) (rq_skey (request_k 8)) STORE_LOCK_READ 0
              (world (fresh_shard store_k)) = (?r, store_k\<lparr>ms_readers := [0x1000]\<rparr>)"
    by (simp add: request_k_def store_itf_def store_lock_def store_grant_def store_k_def
          fresh_shard_def)
  have h3: "is_locked (lr_status ?r)"
    by simp
  have h4: "lr_handle ?r \<noteq> KEY_NONE"
    by (simp add: KEY_NONE_def)
  have h5: "rq_is_direct (request_k 8) \<or> TWO_STAGE_THRESHOLD small_config \<le> lr_len ?r"
    by (simp add: small_config_def)
  have h6: "rq_value_len (request_k 8) < lr_len ?r"
    by (simp add: request_k_def)
  show ?thesis
    using get_two_stage_insufficient_space [OF h1 h2 h3 h4 h5 h6]
    by (simp add: request_k_def fresh_shard_def store_k_def store_itf_def store_unlock_def)
qed

text \<open>
  Claim C6, as the code has it.  After a successful read lock of a GET: a value below
  \<^verbatim>\<open>TWO_STAGE_THRESHOLD\<close> on a request not marked direct is read behind the header of an
  \<^verbatim>\<open>S_OK\<close> response, the backend unlocks the lock with flush, and only then is the
  response posted; nothing else of the shard changes.  A value that fits neither
  inline nor as second buffer is answered with \<^verbatim>\<open>E_TOO_LARGE\<close> when the announced
  buffer is at least as long as the value and memory registration succeeds; the lock
  is then kept and recorded in the shared-lock registry.
\<close>

theorem get_inline_or_too_large:
  assumes "\<not> rq_is_scbe msg"
    and "kv_lock I (rq_pool_id msg) (rq_skey msg) STORE_LOCK_READ 0 (world s) = (r, w1)"
    and "is_locked (lr_status r)"
    and "lr_handle r \<noteq> KEY_NONE"
  shows "(\<not> rq_is_direct msg \<and> lr_len r < TWO_STAGE_THRESHOLD cfg \<longrightarrow>
            io_response_get I cfg msg s =
              s\<lparr>world := snd (kv_unlock I (rq_pool_id msg) (lr_handle r) UNLOCK_FLAGS_FLUSH w1),
                trace := trace s @
                  [Kv_lock (rq_pool_id msg) (rq_skey msg) STORE_LOCK_READ 0,
                   Kv_unlock (rq_pool_id msg) (lr_handle r) UNLOCK_FLAGS_FLUSH,
                   Post_response
                     \<lparr>rsp_status = S_OK, rsp_addr = 0, rsp_key = 0, rsp_data_len = lr_len r,
                      rsp_data = mem_read I (lr_target r) (lr_len r) w1\<rparr>]\<rparr>)
       \<and> (\<not> (\<not> rq_is_direct msg \<and> lr_len r < TWO_STAGE_THRESHOLD cfg)
            \<and> \<not> (\<not> rq_is_direct msg \<and> lr_len r \<le> IO_buffer_size cfg - base_message_size cfg)
            \<and> lr_len r \<le> rq_value_len msg
            \<and> register_memory I (lr_target r) (lr_len r) w1 = (Some mr, wr) \<longrightarrow>
            io_response_get I cfg msg s =
              s\<lparr>world := wr,
                locked_values_shared :=
                  (locked_values_shared s)
                    (lr_target r \<mapsto>
                       (emplace_lock_info (locked_values_shared s) (rq_pool_id msg) (lr_handle r)
                          (lr_target r) (lr_len r) mr)
                         \<lparr>li_count :=
                            li_count (emplace_lock_info (locked_values_shared s) (rq_pool_id msg)
                                        (lr_handle r) (lr_target r) (lr_len r) mr) + 1\<rparr>),
                trace := trace s @
                  [Kv_lock (rq_pool_id msg) (rq_skey msg) STORE_LOCK_READ 0,
                   Register_memory (lr_target r) (lr_len r),
                   Post_response
                     \<lparr>rsp_status = E_TOO_LARGE, rsp_addr = 0, rsp_key = 0, rsp_data_len = 0,
                      rsp_data = []\<rparr>]\<rparr>)"
  using assms
  by (auto simp add: io_response_get_def call_lock_def call_unlock_def call_register_def
        respond2_def respond1_def emit_def add_locked_value_shared_def Let_def split_def)

text \<open>
  The claim as written fails: a 32-byte value fits neither inline (threshold 16) nor as
  second buffer (16 bytes left), yet a request that announces no buffer is answered
  with \<^verbatim>\<open>E_INSUFFICIENT_SPACE\<close>, and the lock is given back.
\<close>

theorem get_too_large_counterexample:
  "\<not> rq_is_scbe (request_k 0)
   \<and> fst (store_lock 1 ''k'' STORE_LOCK_READ 0 store_k) =
       \<lparr>lr_status = S_OK, lr_target = 0x1000, lr_len = 32, lr_handle = 0x1000\<rparr>
   \<and> \<not> (\<not> rq_is_direct (request_k 0) \<and> (32 :: u64) < TWO_STAGE_THRESHOLD small_config)
   \<and> \<not> (\<not> rq_is_direct (request_k 0)
          \<and> (32 :: u64) \<le> IO_buffer_size small_config - base_message_size small_config)
   \<and> io_response_get store_itf small_config (request_k 0) (fresh_shard store_k) =
       (fresh_shard store_k)
         \<lparr>trace := [Kv_lock 1 ''k'' STORE_LOCK_READ 0, Kv_unlock 1 0x1000 UNLOCK_FLAGS_NONE,
                    Post_response
                      \<lparr>rsp_status = E_INSUFFICIENT_SPACE, rsp_addr = 0, rsp_key = 0,
                       rsp_data_len = 0, rsp_data = []\<rparr>]\<rparr>
   \<and> posted_statuses
        (trace (io_response_get store_itf small_config (request_k 0) (fresh_shard store_k)))
       \<noteq> [E_TOO_LARGE]"
  by (simp add: io_response_get_def call_lock_def call_unlock_def respond2_def emit_def
        Let_def split_def request_k_def store_itf_def store_lock_def store_grant_def
        store_unlock_def store_k_def small_config_def fresh_shard_def KEY_NONE_def respond1_def)

theorem get_inline_or_too_large_witness:
  "io_response_get store_itf (small_config\<lparr>TWO_STAGE_THRESHOLD := 64\<rparr>) (request_k 0)
      (fresh_shard store_k) =
     (fresh_shard store_k)
       \<lparr>trace := [Kv_lock 1 ''k'' STORE_LOCK_READ 0, Kv_unlock 1 0x1000 UNLOCK_FLAGS_FLUSH,
                  Post_response
                    \<lparr>rsp_status = S_OK, rsp_addr = 0, rsp_key = 0, rsp_data_len = 32,
                     rsp_data = replicate 32 0xAA\<rparr>]\<rparr>
   \<and> io_response_get store_itf small_config (request_k 32) (fresh_shard store_k) =
     (fresh_shard store_k)
       \<lparr>world := store_k\<lparr>ms_readers := [0x1000]\<rparr>,
        locked_values_shared :=
          [0x1000 \<mapsto> \<lparr>li_pool = 1, li_key = 0x1000, li_length = 32, li_mr = 7, li_count = 1\<rparr>],
        trace := [Kv_lock 1 ''k'' STORE_LOCK_READ 0, Register_memory 0x1000 32,
                  Post_response
                    \<lparr>rsp_status = E_TOO_LARGE, rsp_addr = 0, rsp_key = 0, rsp_data_len = 0,
                     rsp_data = []\<rparr>]\<rparr>"
proof -
  let ?r = "\<lparr>lr_status = S_OK, lr_target = 0x1000, lr_len = 32, lr_handle = 0x1000\<rparr>"
  let ?w = "store_k\<lparr>ms_readers := [0x1000]\<rparr>"
  have h1: "\<not> rq_is_scbe (request_k n)" for n
    by (simp add: request_k_def)
  have h2: "kv_lock store_itf (rq_pool_id (request_k n)) (rq_skey (request_k n)) STORE_LOCK_READ 0
              (world (fresh_shard store_k)) = (?r, ?w)" for n
    by (simp add: request_k_def store_itf_def store_lock_def store_grant_def store_k_def
          fresh_shard_def)
  have h3: "is_locked (lr_status ?r)"
    by simp
  have h4: "lr_handle ?r \<noteq> KEY_NONE"
    by (simp add: KEY_NONE_def)
  have inline: "io_response_get store_itf (small_config\<lparr>TWO_STAGE_THRESHOLD := 64\<rparr>) (request_k 0)
      (fresh_shard store_k) =
     (fresh_shard store_k)
       \<lparr>trace := [Kv_lock 1 ''k'' STORE_LOCK_READ 0, Kv_unlock 1 0x1000 UNLOCK_FLAGS_FLUSH,
                  Post_response
                    \<lparr>rsp_status = S_OK, rsp_addr = 0, rsp_key = 0, rsp_data_len = 32,
                     rsp_data = replicate 32 0xAA\<rparr>]\<rparr>"
    using get_inline_or_too_large [OF h1 [of 0] h2 [of 0] h3 h4,
        where cfg = "small_config\<lparr>TWO_STAGE_THRESHOLD := 64\<rparr>"]
    by (simp add: request_k_def fresh_shard_def store_k_def store_itf_def store_unlock_def
          store_read_def small_config_def map_replicate_const)
  have large: "io_response_get store_itf small_config (request_k 32) (fresh_shard store_k) =
     (fresh_shard store_k)
       \<lparr>world := ?w,
        locked_values_shared :=
          [0x1000 \<mapsto> \<lparr>li_pool = 1, li_key = 0x1000, li_length = 32, li_mr = 7, li_count = 1\<rparr>],
        trace := [Kv_lock 1 ''k'' STORE_LOCK_READ 0, Register_memory 0x1000 32,
                  Post_response
                    \<lparr>rsp_status = E_TOO_LARGE, rsp_addr = 0, rsp_key = 0, rsp_data_len = 0,
                     rsp_data = []\<rparr>]\<rparr>"
    using get_inline_or_too_large [OF h1 [of 32] h2 [of 32] h3 h4,
        where cfg = small_config and mr = 7 and wr = ?w]
    by (simp add: request_k_def fresh_shard_def store_k_def store_itf_def store_register_def
          small_config_def emplace_lock_info_def)
  show ?thesis
    using inline large by simp
qed

subsection \<open>Memory registration that throws\<close>

text \<open>
  Claim C4, as the code has it.  When memory registration throws (leaving the
  transport in \<open>wr\<close>) after GET\_LOCATE, PUT\_LOCATE or PUT\_ADVANCE took its backend
  lock, a response with status \<^verbatim>\<open>E_FAIL\<close> is posted first, and the backend unlocks the
  lock after it, when the handler's \<^verbatim>\<open>locked_key\<close> guard goes out of scope.  Nothing
  else of the shard changes: the two lock registries and the pending renames stay as
  they were.
\<close>

theorem registration_failure_unlocks_at_scope_exit:
  "(kv_lock I (rq_pool_id msg) (rq_skey msg) STORE_LOCK_READ 0 (world s) = (r, w1)
      \<and> is_locked (lr_status r) \<and> lr_handle r \<noteq> KEY_NONE
      \<and> register_memory I (lr_target r) (lr_len r) w1 = (None, wr) \<longrightarrow>
      io_response_get_locate I msg s =
        s\<lparr>world := snd (kv_unlock I (rq_pool_id msg) (lr_handle r) UNLOCK_FLAGS_NONE wr),
          trace := trace s @
            [Kv_lock (rq_pool_id msg) (rq_skey msg) STORE_LOCK_READ 0,
             Register_memory (lr_target r) (lr_len r),
             Post_send_buffer
               \<lparr>rsp_status = E_FAIL, rsp_addr = lr_target r, rsp_key = 0,
                rsp_data_len = lr_len r, rsp_data = []\<rparr>,
             Kv_unlock (rq_pool_id msg) (lr_handle r) UNLOCK_FLAGS_NONE]\<rparr>)
   \<and> (\<not> rq_dont_stomp msg
      \<and> kv_lock I (rq_pool_id msg) (pending_key (rq_skey msg)) STORE_LOCK_WRITE (rq_value_len msg)
            (world s) = (r, w1)
      \<and> is_locked (lr_status r) \<and> lr_handle r \<noteq> KEY_NONE
      \<and> register_memory I (lr_target r) (lr_len r) w1 = (None, wr) \<longrightarrow>
      io_response_put_locate I msg s =
        s\<lparr>world := snd (kv_unlock I (rq_pool_id msg) (lr_handle r) UNLOCK_FLAGS_NONE wr),
          trace := trace s @
            [Kv_lock (rq_pool_id msg) (pending_key (rq_skey msg)) STORE_LOCK_WRITE
               (rq_value_len msg),
             Register_memory (lr_target r) (lr_len r),
             Post_send_buffer
               \<lparr>rsp_status = E_FAIL, rsp_addr = lr_target r, rsp_key = 0,
                rsp_data_len = 0, rsp_data = []\<rparr>,
             Kv_unlock (rq_pool_id msg) (lr_handle r) UNLOCK_FLAGS_NONE]\<rparr>)
   \<and> (\<not> rq_dont_stomp msg
      \<and> kv_lock I (rq_pool_id msg) (pending_key (rq_skey msg)) STORE_LOCK_WRITE (rq_value_len msg)
            (world s) = (r, w1)
      \<and> is_locked (lr_status r) \<and> lr_handle r \<noteq> KEY_NONE \<and> lr_len r = rq_value_len msg
      \<and> register_memory I (lr_target r) (lr_len r) w1 = (None, wr) \<longrightarrow>
      io_response_put_advance I msg s =
        s\<lparr>world := snd (kv_unlock I (rq_pool_id msg) (lr_handle r) UNLOCK_FLAGS_NONE wr),
          trace := trace s @
            [Kv_lock (rq_pool_id msg) (pending_key (rq_skey msg)) STORE_LOCK_WRITE
               (rq_value_len msg),
             Register_memory (lr_target r) (lr_len r),
             Post_send_buffer
               \<lparr>rsp_status = E_FAIL, rsp_addr = lr_target r, rsp_key = 0,
                rsp_data_len = 0, rsp_data = []\<rparr>,
             Kv_unlock (rq_pool_id msg) (lr_handle r) UNLOCK_FLAGS_NONE]\<rparr>)"
proof -
  have get_locate:
    "(kv_lock I (rq_pool_id msg) (rq_skey msg) STORE_LOCK_READ 0 (world s) = (r, w1)
        \<and> is_locked (lr_status r) \<and> lr_handle r \<noteq> KEY_NONE
        \<and> register_memory I (lr_target r) (lr_len r) w1 = (None, wr) \<longrightarrow>
        io_response_get_locate I msg s =
          s\<lparr>world := snd (kv_unlock I (rq_pool_id msg) (lr_handle r) UNLOCK_FLAGS_NONE wr),
            trace := trace s @
              [Kv_lock (rq_pool_id msg) (rq_skey msg) STORE_LOCK_READ 0,
               Register_memory (lr_target r) (lr_len r),
               Post_send_buffer
                 \<lparr>rsp_status = E_FAIL, rsp_addr = lr_target r, rsp_key = 0,
                  rsp_data_len = lr_len r, rsp_data = []\<rparr>,
               Kv_unlock (rq_pool_id msg) (lr_handle r) UNLOCK_FLAGS_NONE]\<rparr>)"
    by (clarsimp simp add: io_response_get_locate_def call_lock_def call_unlock_def
          call_register_def locked_key_destroy_def respond1_def emit_def Let_def split_def)
  have put_locate:
    "(\<not> rq_dont_stomp msg
        \<and> kv_lock I (rq_pool_id msg) (pending_key (rq_skey msg)) STORE_LOCK_WRITE (rq_value_len msg)
              (world s) = (r, w1)
        \<and> is_locked (lr_status r) \<and> lr_handle r \<noteq> KEY_NONE
        \<and> register_memory I (lr_target r) (lr_len r) w1 = (None, wr) \<longrightarrow>
        io_response_put_locate I msg s =
          s\<lparr>world := snd (kv_unlock I (rq_pool_id msg) (lr_handle r) UNLOCK_FLAGS_NONE wr),
            trace := trace s @
              [Kv_lock (rq_pool_id msg) (pending_key (rq_skey msg)) STORE_LOCK_WRITE
                 (rq_value_len msg),
               Register_memory (lr_target r) (lr_len r),
               Post_send_buffer
                 \<lparr>rsp_status = E_FAIL, rsp_addr = lr_target r, rsp_key = 0,
                  rsp_data_len = 0, rsp_data = []\<rparr>,
               Kv_unlock (rq_pool_id msg) (lr_handle r) UNLOCK_FLAGS_NONE]\<rparr>)"
    by (clarsimp simp add: io_response_put_locate_def call_lock_def call_unlock_def
          call_register_def locked_key_destroy_def respond1_def emit_def Let_def split_def)
  have put_advance:
    "(\<not> rq_dont_stomp msg
        \<and> kv_lock I (rq_pool_id msg) (pending_key (rq_skey msg)) STORE_LOCK_WRITE (rq_value_len msg)
              (world s) = (r, w1)
        \<and> is_locked (lr_status r) \<and> lr_handle r \<noteq> KEY_NONE \<and> lr_len r = rq_value_len msg
        \<and> register_memory I (lr_target r) (lr_len r) w1 = (None, wr) \<longrightarrow>
        io_response_put_advance I msg s =
          s\<lparr>world := snd (kv_unlock I (rq_pool_id msg) (lr_handle r) UNLOCK_FLAGS_NONE wr),
            trace := trace s @
              [Kv_lock (rq_pool_id msg) (pending_key (rq_skey msg)) STORE_LOCK_WRITE
                 (rq_value_len msg),
               Register_memory (lr_target r) (lr_len r),
               Post_send_buffer
                 \<lparr>rsp_status = E_FAIL, rsp_addr = lr_target r, rsp_key = 0,
                  rsp_data_len = 0, rsp_data = []\<rparr>,
               Kv_unlock (rq_pool_id msg) (lr_handle r) UNLOCK_FLAGS_NONE]\<rparr>)"
    by (clarsimp simp add: io_response_put_advance_def call_lock_def call_unlock_def
          call_register_def locked_key_destroy_def respond1_def emit_def Let_def split_def)
  show ?thesis
    by (rule conjI [OF get_locate conjI [OF put_locate put_advance]])
qed

text \<open>
  The claim as written fails: with registration throwing, GET\_LOCATE posts the failure
  response while the backend still holds the read lock, and unlocks after it.
\<close>

theorem registration_failure_counterexample:
  "fst (store_lock 1 ''k'' STORE_LOCK_READ 0 store_k_no_registration) =
     \<lparr>lr_status = S_OK, lr_target = 0x1000, lr_len = 32, lr_handle = 0x1000\<rparr>
   \<and> fst (store_register 0x1000 32 store_k_no_registration) = None
   \<and> io_response_get_locate store_itf (request_k 0) (fresh_shard store_k_no_registration) =
       (fresh_shard store_k_no_registration)
         \<lparr>trace := [Kv_lock 1 ''k'' STORE_LOCK_READ 0, Register_memory 0x1000 32,
                    Post_send_buffer
                      \<lparr>rsp_status = E_FAIL, rsp_addr = 0x1000, rsp_key = 0, rsp_data_len = 32,
                       rsp_data = []\<rparr>,
                    Kv_unlock 1 0x1000 UNLOCK_FLAGS_NONE]\<rparr>
   \<and> \<not> unlocked_before_posting
         (trace (io_response_get_locate store_itf (request_k 0)
                   (fresh_shard store_k_no_registration)))"
  by (simp add: io_response_get_locate_def call_lock_def call_unlock_def call_register_def
        locked_key_destroy_def emit_def Let_def split_def request_k_def store_itf_def
        store_lock_def store_grant_def store_unlock_def store_register_def
        store_k_no_registration_def store_k_def fresh_shard_def KEY_NONE_def respond1_def)

theorem registration_failure_unlocks_at_scope_exit_witness:
  "io_response_get_locate store_itf (request_k 0) (fresh_shard store_k_no_registration) =
     (fresh_shard store_k_no_registration)
       \<lparr>trace := [Kv_lock 1 ''k'' STORE_LOCK_READ 0, Register_memory 0x1000 32,
                  Post_send_buffer
                    \<lparr>rsp_status = E_FAIL, rsp_addr = 0x1000, rsp_key = 0, rsp_data_len = 32,
                     rsp_data = []\<rparr>,
                  Kv_unlock 1 0x1000 UNLOCK_FLAGS_NONE]\<rparr>
   \<and> io_response_put_locate store_itf (request_k 16)
        (fresh_shard (store_empty\<lparr>ms_reg_throws := True\<rparr>)) =
     (fresh_shard
        (store_empty\<lparr>ms_reg_throws := True,
           ms_slots := [(''___pending_k'', \<lparr>iov_base = 0x1000, iov_len = 16\<rparr>)],
           ms_next := 0x1010\<rparr>))
       \<lparr>trace := [Kv_lock 1 ''___pending_k'' STORE_LOCK_WRITE 16, Register_memory 0x1000 16,
                  Post_send_buffer
                    \<lparr>rsp_status = E_FAIL, rsp_addr = 0x1000, rsp_key = 0, rsp_data_len = 0,
                     rsp_data = []\<rparr>,
                  Kv_unlock 1 0x1000 UNLOCK_FLAGS_NONE]\<rparr>
   \<and> io_response_put_advance store_itf (request_k 16)
        (fresh_shard (store_empty\<lparr>ms_reg_throws := True\<rparr>)) =
     (fresh_shard
        (store_empty\<lparr>ms_reg_throws := True,
           ms_slots := [(''___pending_k'', \<lparr>iov_base = 0x1000, iov_len = 16\<rparr>)],
           ms_next := 0x1010\<rparr>))
       \<lparr>trace := [Kv_lock 1 ''___pending_k'' STORE_LOCK_WRITE 16, Register_memory 0x1000 16,
                  Post_send_buffer
                    \<lparr>rsp_status = E_FAIL, rsp_addr = 0x1000, rsp_key = 0, rsp_data_len = 0,
                     rsp_data = []\<rparr>,
                  Kv_unlock 1 0x1000 UNLOCK_FLAGS_NONE]\<rparr>"
proof -
  let ?r = "\<lparr>lr_status = S_OK, lr_target = 0x1000, lr_len = 32, lr_handle = 0x1000\<rparr>"
  let ?w = "store_k_no_registration\<lparr>ms_readers := [0x1000]\<rparr>"
  let ?e = "store_empty\<lparr>ms_reg_throws := True\<rparr>"
  let ?rc = "\<lparr>lr_status = S_OK_CREATED, lr_target = 0x1000, lr_len = 16, lr_handle = 0x1000\<rparr>"
  let ?wc = "store_empty\<lparr>ms_reg_throws := True,
               ms_slots := [(''___pending_k'', \<lparr>iov_base = 0x1000, iov_len = 16\<rparr>)],
               ms_next := 0x1010, ms_writers := [0x1000]\<rparr>"
  have g: "kv_lock store_itf (rq_pool_id (request_k 0)) (rq_skey (request_k 0)) STORE_LOCK_READ 0
             (world (fresh_shard store_k_no_registration)) = (?r, ?w)
           \<and> is_locked (lr_status ?r) \<and> lr_handle ?r \<noteq> KEY_NONE
           \<and> register_memory store_itf (lr_target ?r) (lr_len ?r) ?w = (None, ?w)"
    by (simp add: request_k_def store_itf_def store_lock_def store_grant_def store_register_def
          store_k_no_registration_def store_k_def fresh_shard_def KEY_NONE_def)
  have p: "\<not> rq_dont_stomp (request_k 16)
           \<and> kv_lock store_itf (rq_pool_id (request_k 16)) (pending_key (rq_skey (request_k 16)))
               STORE_LOCK_WRITE (rq_value_len (request_k 16)) (world (fresh_shard ?e)) = (?rc, ?wc)
           \<and> is_locked (lr_status ?rc) \<and> lr_handle ?rc \<noteq> KEY_NONE
           \<and> lr_len ?rc = rq_value_len (request_k 16)
           \<and> register_memory store_itf (lr_target ?rc) (lr_len ?rc) ?wc = (None, ?wc)"
    by (simp add: request_k_def store_itf_def store_lock_def store_grant_def store_register_def
          store_empty_def fresh_shard_def KEY_NONE_def pending_key_def)
  note a = registration_failure_unlocks_at_scope_exit
    [of store_itf "request_k 0" "fresh_shard store_k_no_registration" ?r ?w ?w]
  note b = registration_failure_unlocks_at_scope_exit
    [of store_itf "request_k 16" "fresh_shard ?e" ?rc ?wc ?wc]
  have first: "io_response_get_locate store_itf (request_k 0) (fresh_shard store_k_no_registration) =
      (fresh_shard store_k_no_registration)
        \<lparr>world := snd (kv_unlock store_itf (rq_pool_id (request_k 0)) (lr_handle ?r)
                         UNLOCK_FLAGS_NONE ?w),
         trace := trace (fresh_shard store_k_no_registration) @
           [Kv_lock (rq_pool_id (request_k 0)) (rq_skey (request_k 0)) STORE_LOCK_READ 0,
            Register_memory (lr_target ?r) (lr_len ?r),
            Post_send_buffer
              \<lparr>rsp_status = E_FAIL, rsp_addr = lr_target ?r, rsp_key = 0,
               rsp_data_len = lr_len ?r, rsp_data = []\<rparr>,
            Kv_unlock (rq_pool_id (request_k 0)) (lr_handle ?r) UNLOCK_FLAGS_NONE]\<rparr>"
    using a g by blast
  have second: "io_response_put_locate store_itf (request_k 16) (fresh_shard ?e) =
      (fresh_shard ?e)
        \<lparr>world := snd (kv_unlock store_itf (rq_pool_id (request_k 16)) (lr_handle ?rc)
                         UNLOCK_FLAGS_NONE ?wc),
         trace := trace (fresh_shard ?e) @
           [Kv_lock (rq_pool_id (request_k 16)) (pending_key (rq_skey (request_k 16)))
              STORE_LOCK_WRITE (rq_value_len (request_k 16)),
            Register_memory (lr_target ?rc) (lr_len ?rc),
            Post_send_buffer
              \<lparr>rsp_status = E_FAIL, rsp_addr = lr_target ?rc, rsp_key = 0,
               rsp_data_len = 0, rsp_data = []\<rparr>,
            Kv_unlock (rq_pool_id (request_k 16)) (lr_handle ?rc) UNLOCK_FLAGS_NONE]\<rparr>"
    using b p by blast
  have third: "io_response_put_advance store_itf (request_k 16) (fresh_shard ?e) =
      (fresh_shard ?e)
        \<lparr>world := snd (kv_unlock store_itf (rq_pool_id (request_k 16)) (lr_handle ?rc)
                         UNLOCK_FLAGS_NONE ?wc),
         trace := trace (fresh_shard ?e) @
           [Kv_lock (rq_pool_id (request_k 16)) (pending_key (rq_skey (request_k 16)))
              STORE_LOCK_WRITE (rq_value_len (request_k 16)),
            Register_memory (lr_target ?rc) (lr_len ?rc),
            Post_send_buffer
              \<lparr>rsp_status = E_FAIL, rsp_addr = lr_target ?rc, rsp_key = 0,
               rsp_data_len = 0, rsp_data = []\<rparr>,
            Kv_unlock (rq_pool_id (request_k 16)) (lr_handle ?rc) UNLOCK_FLAGS_NONE]\<rparr>"
    using b p by blast
  show ?thesis
    unfolding first second third
    by (simp add: request_k_def store_itf_def store_unlock_def store_k_no_registration_def
          store_k_def store_empty_def fresh_shard_def pending_key_def)
qed

subsection \<open>PUT\_RELEASE\<close>


















subsection \<open>Message dispatch\<close>

lemma dispatch_pending_dispatched:
  "dispatched (fst (result_state (dispatch_pending process c s))) = dispatched c
   \<or> dispatched (fst (result_state (dispatch_pending process c s))) =
       dispatched c @ [hd (pending_msgs c)]"
  by (auto simp add: dispatch_pending_def split: list.splits outcome.splits)

lemma dispatch_pending_freed:
  "freed_buffers (fst (result_state (dispatch_pending process c s))) = freed_buffers c
   \<or> (\<exists>p_msg rest s1. pending_msgs c = p_msg # rest \<and> process p_msg s = Returns s1
        \<and> freed_buffers (fst (result_state (dispatch_pending process c s))) =
            freed_buffers c @ [p_msg]
        \<and> pending_msgs (fst (result_state (dispatch_pending process c s))) = rest)"
  by (auto simp add: dispatch_pending_def split: list.splits outcome.splits)

lemma dispatch_pending_unavailable:
  assumes "pending_msgs c = p_msg # rest" and "process p_msg s = Throws Resource_unavailable s1"
  shows "dispatch_pending process c s = Returns (c\<lparr>dispatched := dispatched c @ [p_msg]\<rparr>, s1)"
  using assms by (simp add: dispatch_pending_def)

lemma dispatch_pending_again:
  assumes "pending_msgs c = p_msg # rest"
  shows "dispatched (fst (result_state
           (dispatch_pending process (c\<lparr>dispatched := dispatched c @ [p_msg]\<rparr>) s2))) =
         dispatched c @ [p_msg, p_msg]"
  using assms
  by (auto simp add: dispatch_pending_def split: list.splits outcome.splits)

lemma iterate_handlers_length:
  "length (fst (result_state (iterate_handlers process cs s))) = length cs"
proof (induction cs arbitrary: s)
  case Nil
  then show ?case by simp
next
  case (Cons c cs)
  show ?case
  proof (cases "dispatch_pending process c s")
    case (Returns cs1)
    obtain c1 s1 where cs1: "cs1 = (c1, s1)" by (cases cs1)
    show ?thesis
      using Cons.IH [of s1] Returns cs1
      by (cases "iterate_handlers process cs s1") (auto split: prod.splits)
  next
    case (Throws e cs1)
    then show ?thesis by (auto split: prod.splits)
  qed
qed

lemma iterate_handlers_one_each:
  "i < length cs \<Longrightarrow>
     length (dispatched (fst (result_state (iterate_handlers process cs s)) ! i))
       \<le> length (dispatched (cs ! i)) + 1"
proof (induction cs arbitrary: s i)
  case Nil
  then show ?case by simp
next
  case (Cons c cs)
  have step: "length (dispatched (fst (result_state (dispatch_pending process c s))))
                \<le> length (dispatched c) + 1"
    using dispatch_pending_dispatched [of process c s] by auto
  show ?case
  proof (cases "dispatch_pending process c s")
    case (Returns cs1)
    obtain c1 s1 where cs1: "cs1 = (c1, s1)" by (cases cs1)
    have hd1: "length (dispatched c1) \<le> length (dispatched c) + 1"
      using step Returns cs1 by simp
    show ?thesis
    proof (cases i)
      case 0
      then show ?thesis
        using Returns cs1 hd1
        by (cases "iterate_handlers process cs s1") (auto split: prod.splits)
    next
      case (Suc j)
      then have "j < length cs" using Cons.prems by simp
      from Cons.IH [OF this, of s1] show ?thesis
        using Returns cs1 Suc
        by (cases "iterate_handlers process cs s1") (auto split: prod.splits)
    qed
  next
    case (Throws e cs1)
    obtain c1 s1 where cs1: "cs1 = (c1, s1)" by (cases cs1)
    have hd1: "length (dispatched c1) \<le> length (dispatched c) + 1"
      using step Throws cs1 by simp
    show ?thesis
      using Throws cs1 hd1 by (cases i) auto
  qed
qed

text \<open>
  Claim C5.  In one tick every session has at most one message handed to a handler,
  and only the head of its queue.  When the handler throws \<^verbatim>\<open>resource_unavailable\<close> the
  session's queue and freed buffers are as before, the loop goes on, and the next
  dispatch of that session hands the same message to the handler again.  A buffer is
  freed only for a message whose handler returned, and that message is the one taken
  off the queue.
\<close>

theorem main_loop_backpressure:
  "(\<forall>i < length cs.
       length (dispatched (fst (result_state (iterate_handlers process cs s)) ! i))
         \<le> length (dispatched (cs ! i)) + 1)
   \<and> length (fst (result_state (iterate_handlers process cs s))) = length cs
   \<and> (dispatched (fst (result_state (dispatch_pending process c s))) = dispatched c
        \<or> dispatched (fst (result_state (dispatch_pending process c s))) =
            dispatched c @ [hd (pending_msgs c)])
   \<and> (pending_msgs c = p_msg # rest \<and> process p_msg s = Throws Resource_unavailable s1 \<longrightarrow>
        dispatch_pending process c s = Returns (c\<lparr>dispatched := dispatched c @ [p_msg]\<rparr>, s1)
        \<and> dispatched (fst (result_state
             (dispatch_pending process (c\<lparr>dispatched := dispatched c @ [p_msg]\<rparr>) s2))) =
           dispatched c @ [p_msg, p_msg])
   \<and> (freed_buffers (fst (result_state (dispatch_pending process c s))) = freed_buffers c
        \<or> (\<exists>q rest1 s3. pending_msgs c = q # rest1 \<and> process q s = Returns s3
             \<and> freed_buffers (fst (result_state (dispatch_pending process c s))) =
                 freed_buffers c @ [q]
             \<and> pending_msgs (fst (result_state (dispatch_pending process c s))) = rest1))"
proof -
  have a: "\<forall>i < length cs.
       length (dispatched (fst (result_state (iterate_handlers process cs s)) ! i))
         \<le> length (dispatched (cs ! i)) + 1"
    by (intro allI impI) (rule iterate_handlers_one_each)
  have b: "pending_msgs c = p_msg # rest \<and> process p_msg s = Throws Resource_unavailable s1 \<longrightarrow>
        dispatch_pending process c s = Returns (c\<lparr>dispatched := dispatched c @ [p_msg]\<rparr>, s1)
        \<and> dispatched (fst (result_state
             (dispatch_pending process (c\<lparr>dispatched := dispatched c @ [p_msg]\<rparr>) s2))) =
           dispatched c @ [p_msg, p_msg]"
  proof (intro impI)
    assume h: "pending_msgs c = p_msg # rest \<and> process p_msg s = Throws Resource_unavailable s1"
    then have h1: "pending_msgs c = p_msg # rest"
      and h2: "process p_msg s = Throws Resource_unavailable s1" by simp_all
    show "dispatch_pending process c s = Returns (c\<lparr>dispatched := dispatched c @ [p_msg]\<rparr>, s1)
        \<and> dispatched (fst (result_state
             (dispatch_pending process (c\<lparr>dispatched := dispatched c @ [p_msg]\<rparr>) s2))) =
           dispatched c @ [p_msg, p_msg]"
      using dispatch_pending_unavailable [where process = process and c = c and s = s, OF h1 h2]
        dispatch_pending_again [where process = process and c = c and ?s2.0 = s2, OF h1]
      by (rule conjI)
  qed
  show ?thesis
    by (intro conjI a b iterate_handlers_length dispatch_pending_dispatched
          dispatch_pending_freed)
qed

theorem main_loop_backpressure_witness:
  "dispatch_pending buffer_process
     \<lparr>pending_msgs = [1, 2], freed_buffers = [], dispatched = []\<rparr> 0 =
     Returns (\<lparr>pending_msgs = [1, 2], freed_buffers = [], dispatched = [1]\<rparr>, 0)
   \<and> dispatched (fst (result_state (dispatch_pending buffer_process
        \<lparr>pending_msgs = [1, 2], freed_buffers = [], dispatched = [1]\<rparr> 1))) = [1, 1]
   \<and> dispatch_pending buffer_process
        \<lparr>pending_msgs = [1, 2], freed_buffers = [], dispatched = [1]\<rparr> 1 =
      Returns (\<lparr>pending_msgs = [2], freed_buffers = [1], dispatched = [1, 1]\<rparr>, 0)
   \<and> iterate_handlers buffer_process
        [\<lparr>pending_msgs = [1, 2], freed_buffers = [], dispatched = []\<rparr>,
         \<lparr>pending_msgs = [3], freed_buffers = [], dispatched = []\<rparr>] 1 =
      Returns ([\<lparr>pending_msgs = [2], freed_buffers = [1], dispatched = [1]\<rparr>,
                \<lparr>pending_msgs = [3], freed_buffers = [], dispatched = [3]\<rparr>], 0)"
  using main_loop_backpressure [where process = buffer_process
      and c = "\<lparr>pending_msgs = [1, 2], freed_buffers = [], dispatched = []\<rparr>"
      and s = 0 and p_msg = 1 and rest = "[2]" and ?s1.0 = 0 and ?s2.0 = 1
      and cs = "[\<lparr>pending_msgs = [1, 2], freed_buffers = [], dispatched = []\<rparr>]"]
  by (simp add: buffer_process_def dispatch_pending_def)

subsection \<open>ADO requests\<close>

text \<open>
  Claim C9.  With ADO enabled, an ADO request flagged CREATE\_ONLY (and not DETACHED)
  for a key the backend does not have: the handler asks for the key, locks it with the
  requested on-demand length, zeroes the value the lock returned, unlocks, and only
  then answers \<^verbatim>\<open>S_OK\<close> with the value's address; no work request goes to the ADO.  The
  same request again, once the backend reports the key, is answered
  \<^verbatim>\<open>E_ALREADY_EXISTS\<close> after the one query, with no lock and no write.  The backend's
  part (the lock creates the key, which is then found) is a hypothesis here and a
  computed fact in the run that follows.
\<close>

theorem ado_create_only_twice:
  assumes "ado_enabled cfg"
    and "ADO_FLAG_CREATE_ONLY \<in> arq_flags msg"
    and "ADO_FLAG_DETACHED \<notin> arq_flags msg"
    and "kv_get_attribute_value_len I (arq_pool_id msg) (arq_key msg) (world s)
           = (E_KEY_NOT_FOUND, w1)"
    and "kv_lock I (arq_pool_id msg) (arq_key msg) (ado_lock_type msg) (arq_ondemand_val_len msg) w1
           = (r, w2)"
    and "\<not> below_S_OK (lr_status r)"
    and "kv_unlock I (arq_pool_id msg) (lr_handle r) UNLOCK_FLAGS_NONE
           (mem_zero I (lr_target r) (lr_len r) w2) = (S_OK, w3)"
    and "kv_get_attribute_value_len I (arq_pool_id msg) (arq_key msg) w3 = (rc, w4)"
    and "rc \<noteq> E_KEY_NOT_FOUND"
  shows "trace (process_ado_request I cfg msg s) =
           trace s @ [Kv_get_attribute (arq_pool_id msg) (arq_key msg),
                      Kv_lock (arq_pool_id msg) (arq_key msg) (ado_lock_type msg)
                        (arq_ondemand_val_len msg),
                      Pmem_memset (lr_target r) (lr_len r),
                      Kv_unlock (arq_pool_id msg) (lr_handle r) UNLOCK_FLAGS_NONE,
                      Post_ado_response
                        \<lparr>arsp_status = S_OK, arsp_payload = Value_address (lr_target r)\<rparr>]
         \<and> world (process_ado_request I cfg msg s) = w3
         \<and> trace (process_ado_request I cfg msg (process_ado_request I cfg msg s)) =
           trace (process_ado_request I cfg msg s)
             @ [Kv_get_attribute (arq_pool_id msg) (arq_key msg),
                Post_ado_response
                  \<lparr>arsp_status = E_ALREADY_EXISTS,
                   arsp_payload = Error_text ''ADO!ALREADY_EXISTS''\<rparr>]
         \<and> world (process_ado_request I cfg msg (process_ado_request I cfg msg s)) = w4"
proof -
  have first: "process_ado_request I cfg msg s =
      s\<lparr>world := w3,
        trace := trace s @ [Kv_get_attribute (arq_pool_id msg) (arq_key msg),
                      Kv_lock (arq_pool_id msg) (arq_key msg) (ado_lock_type msg)
                        (arq_ondemand_val_len msg),
                      Pmem_memset (lr_target r) (lr_len r),
                      Kv_unlock (arq_pool_id msg) (lr_handle r) UNLOCK_FLAGS_NONE,
                      Post_ado_response
                        \<lparr>arsp_status = S_OK, arsp_payload = Value_address (lr_target r)\<rparr>]\<rparr>"
    using assms
    by (simp add: process_ado_request_def call_get_attribute_def call_lock_def call_memset_def
          call_unlock_def emit_def Let_def split_def)
  show ?thesis
    unfolding first using assms
    by (simp add: process_ado_request_def call_get_attribute_def error_func_def emit_def
          Let_def split_def)
qed

theorem ado_create_only_twice_witness:
  "fst (store_get_attribute 1 ''k'' store_empty) = E_KEY_NOT_FOUND
   \<and> trace (process_ado_request store_itf small_config create_only_k (fresh_shard store_empty)) =
       [Kv_get_attribute 1 ''k'', Kv_lock 1 ''k'' STORE_LOCK_WRITE 4, Pmem_memset 0x1000 4,
        Kv_unlock 1 0x1000 UNLOCK_FLAGS_NONE,
        Post_ado_response \<lparr>arsp_status = S_OK, arsp_payload = Value_address 0x1000\<rparr>]
   \<and> store_read 0x1000 4
        (world (process_ado_request store_itf small_config create_only_k (fresh_shard store_empty)))
       = [0, 0, 0, 0]
   \<and> trace (process_ado_request store_itf small_config create_only_k
              (process_ado_request store_itf small_config create_only_k (fresh_shard store_empty))) =
       [Kv_get_attribute 1 ''k'', Kv_lock 1 ''k'' STORE_LOCK_WRITE 4, Pmem_memset 0x1000 4,
        Kv_unlock 1 0x1000 UNLOCK_FLAGS_NONE,
        Post_ado_response \<lparr>arsp_status = S_OK, arsp_payload = Value_address 0x1000\<rparr>,
        Kv_get_attribute 1 ''k'',
        Post_ado_response \<lparr>arsp_status = E_ALREADY_EXISTS,
                           arsp_payload = Error_text ''ADO!ALREADY_EXISTS''\<rparr>]
   \<and> world (process_ado_request store_itf small_config create_only_k
              (process_ado_request store_itf small_config create_only_k (fresh_shard store_empty)))
       = world (process_ado_request store_itf small_config create_only_k (fresh_shard store_empty))"
proof -
  let ?w2 = "store_empty\<lparr>ms_slots := [(''k'', \<lparr>iov_base = 0x1000, iov_len = 4\<rparr>)],
                          ms_next := 0x1004, ms_writers := [0x1000]\<rparr>"
  let ?r = "\<lparr>lr_status = S_OK_CREATED, lr_target = 0x1000, lr_len = 4, lr_handle = 0x1000\<rparr>"
  let ?w3 = "(store_zero 0x1000 4 ?w2)\<lparr>ms_writers := []\<rparr>"
  have h1: "ado_enabled small_config"
    by (simp add: small_config_def)
  have h2: "ADO_FLAG_CREATE_ONLY \<in> arq_flags create_only_k"
    and h3: "ADO_FLAG_DETACHED \<notin> arq_flags create_only_k"
    by (simp_all add: create_only_k_def)
  have h4: "kv_get_attribute_value_len store_itf (arq_pool_id create_only_k)
              (arq_key create_only_k) (world (fresh_shard store_empty))
            = (E_KEY_NOT_FOUND, store_empty)"
    by (simp add: store_itf_def store_get_attribute_def fresh_shard_def store_empty_def)
  have h5: "kv_lock store_itf (arq_pool_id create_only_k) (arq_key create_only_k)
              (ado_lock_type create_only_k) (arq_ondemand_val_len create_only_k) store_empty
            = (?r, ?w2)"
    by (simp add: store_itf_def store_lock_def store_grant_def ado_lock_type_def
          create_only_k_def store_empty_def)
  have h6: "\<not> below_S_OK (lr_status ?r)"
    by (simp add: below_S_OK_def)
  have h7: "kv_unlock store_itf (arq_pool_id create_only_k) (lr_handle ?r) UNLOCK_FLAGS_NONE
              (mem_zero store_itf (lr_target ?r) (lr_len ?r) ?w2) = (S_OK, ?w3)"
    by (simp add: store_itf_def store_unlock_def store_zero_def store_empty_def)
  have h8: "kv_get_attribute_value_len store_itf (arq_pool_id create_only_k)
              (arq_key create_only_k) ?w3 = (S_OK, ?w3)"
    by (simp add: store_itf_def store_get_attribute_def store_zero_def create_only_k_def
          store_empty_def)
  have h9: "S_OK \<noteq> E_KEY_NOT_FOUND"
    by simp
  have upt4: "[0..<4] = [0, 1, 2, 3 :: nat]"
    by code_simp
  have zeroed: "store_read 0x1000 4 ?w3 = [0, 0, 0, 0]"
    by (simp add: store_read_def store_zero_def upt4)
  have absent: "fst (store_get_attribute 1 ''k'' store_empty) = E_KEY_NOT_FOUND"
    by (simp add: store_get_attribute_def store_empty_def)
  from ado_create_only_twice [OF h1 h2 h3 h4 h5 h6 h7 h8 h9] zeroed absent
  show ?thesis
    by (simp add: create_only_k_def ado_lock_type_def fresh_shard_def)
qed

subsection \<open>Offset resolution\<close>

lemma sg_entries_before_last_Some:
  assumes "sg_entries_before_last rb it_begin it_end v = Some res"
  shows "(it_begin = it_end \<and> res = Inr v)
       \<or> (it_begin \<noteq> it_end \<and> length rb \<le> it_begin \<and> res = Inl End_iterator_dereferenced)"
proof (rule sg_entries_before_last.raw_induct [OF _ assms])
  fix self rb it_begin it_end v res
  assume IH: "\<And>rb it_begin it_end v res. self rb it_begin it_end v = Some res \<Longrightarrow>
      (it_begin = it_end \<and> res = Inr v)
       \<or> (it_begin \<noteq> it_end \<and> length rb \<le> it_begin \<and> res = Inl End_iterator_dereferenced)"
    and body: "(if it_begin \<noteq> it_end then
        (if it_begin < length rb then
           self rb it_begin it_end
             \<lparr>begin_off = 0,
              acc_low = min (acc_low v) (iov_base (rb ! it_begin) + begin_off v),
              acc_high = max (acc_high v) (iov_base (rb ! it_begin) + iov_len (rb ! it_begin)),
              acc_list = acc_list v @
                [\<lparr>le_addr = iov_base (rb ! it_begin) + begin_off v,
                  le_len = (iov_base (rb ! it_begin) + iov_len (rb ! it_begin))
                           - (iov_base (rb ! it_begin) + begin_off v)\<rparr>]\<rparr>
         else Some (Inl End_iterator_dereferenced))
      else Some (Inr v)) = Some res"
  show "(it_begin = it_end \<and> res = Inr v)
       \<or> (it_begin \<noteq> it_end \<and> length rb \<le> it_begin \<and> res = Inl End_iterator_dereferenced)"
  proof (cases "it_begin = it_end")
    case True
    with body show ?thesis by simp
  next
    case ne: False
    show ?thesis
    proof (cases "it_begin < length rb")
      case True
      with ne body have "\<exists>v'. self rb it_begin it_end v' = Some res" by auto
      then obtain v' where "self rb it_begin it_end v' = Some res" by blast
      from IH [OF this] ne True show ?thesis by auto
    next
      case False
      with ne body show ?thesis by auto
    qed
  qed
qed


lemma sg_entries_before_last_diverges:
  assumes "it_begin \<noteq> it_end" and "it_begin < length rb"
  shows "sg_entries_before_last rb it_begin it_end v = None"
proof (cases "sg_entries_before_last rb it_begin it_end v")
  case None
  then show ?thesis .
next
  case (Some res)
  from sg_entries_before_last_Some [OF this] assms show ?thesis by auto
qed

text \<open>
  Whenever \<^verbatim>\<open>offset_to_sg_list\<close> returns a list, both ends of the range resolved to the
  same break, the list has exactly one element, and that element's length is the
  requested size less the excess length (modulo \<open>2 ^ 64\<close>).
\<close>

theorem offset_to_sg_list_single_entry:
  assumes "offset_to_sg_list t rb = Some (Inr res)"
  shows "upper_bound_base rb (fst t) 0 (length rb) = upper_bound_base rb (snd t) 0 (length rb)
       \<and> length (sg_list res) = 1
       \<and> le_len (hd (sg_list res)) = (snd t - fst t) - excess_length res"
proof -
  let ?b = "upper_bound_base rb (fst t) 0 (length rb)"
  let ?e = "upper_bound_base rb (snd t) 0 (length rb)"
  let ?v0 = "\<lparr>begin_off = fst t - (if ?b = 0 then 0 else iov_len (rb ! (?b - 1))),
              acc_low = - 1, acc_high = 0, acc_list = []\<rparr>"
  let ?end_off = "snd t - (if ?e = 0 then 0 else iov_len (rb ! (?e - 1)))"
  from assms have unf: "(case sg_entries_before_last rb ?b ?e ?v0 of
           None \<Rightarrow> None
         | Some (Inl err) \<Rightarrow> Some (Inl err)
         | Some (Inr v) \<Rightarrow>
             (if ?b < length rb
              then Some (Inr (sg_last_entry (rb ! ?b) ?end_off v))
              else Some (Inl End_iterator_dereferenced))) = Some (Inr res)"
    unfolding offset_to_sg_list_def Let_def .
  then obtain lp where lp: "sg_entries_before_last rb ?b ?e ?v0 = Some lp"
    by (cases "sg_entries_before_last rb ?b ?e ?v0") auto
  from sg_entries_before_last_Some [OF lp] unf lp have eq: "?b = ?e" and lpv: "lp = Inr ?v0"
    by auto
  from unf lp lpv have res: "res = sg_last_entry (rb ! ?b) ?end_off ?v0"
    by (auto split: if_splits)
  have "le_len (hd (sg_list res)) = (snd t - fst t) - excess_length res"
    unfolding res using eq by (simp add: sg_last_entry_def Let_def)
  moreover have "length (sg_list res) = 1"
    unfolding res by (simp add: sg_last_entry_def Let_def)
  ultimately show ?thesis using eq by simp
qed

text \<open>
  When the two ends of the range resolve to different breaks, the first of them inside
  the list, the loop over the entries before the last never ends.
\<close>

theorem offset_to_sg_list_never_returns:
  assumes "upper_bound_base rb (fst t) 0 (length rb) \<noteq> upper_bound_base rb (snd t) 0 (length rb)"
    and "upper_bound_base rb (fst t) 0 (length rb) < length rb"
  shows "offset_to_sg_list t rb = None"
  using assms
  by (simp add: offset_to_sg_list_def Let_def sg_entries_before_last_diverges)

theorem offset_to_sg_list_single_entry_witness:
  "offset_to_sg_list (locate_range 0 0x1000)
       (region_breaks [\<lparr>iov_base = 0x7F0000000000, iov_len = 0x800\<rparr>,
                       \<lparr>iov_base = 0x7F0001000000, iov_len = 0x800\<rparr>]) =
     Some (Inr \<lparr>sg_list = [\<lparr>le_addr = 0x7F0000000000, le_len = 0x800\<rparr>],
                mr_low = 0x7F0000000000, mr_high = 0x7F0000000800, excess_length = 0x800\<rparr>)
   \<and> length [\<lparr>le_addr = 0x7F0000000000 :: u64, le_len = 0x800 :: u64\<rparr>] = 1
   \<and> (0x800 :: u64) = (0x1000 - 0) - 0x800"
proof -
  have r: "offset_to_sg_list (locate_range 0 0x1000)
       (region_breaks [\<lparr>iov_base = 0x7F0000000000, iov_len = 0x800\<rparr>,
                       \<lparr>iov_base = 0x7F0001000000, iov_len = 0x800\<rparr>]) =
     Some (Inr \<lparr>sg_list = [\<lparr>le_addr = 0x7F0000000000, le_len = 0x800\<rparr>],
                mr_low = 0x7F0000000000, mr_high = 0x7F0000000800, excess_length = 0x800\<rparr>)"
    by (simp add: offset_to_sg_list_def locate_range_def region_breaks_def upper_bound_base.simps
        sg_entries_before_last.simps sg_last_entry_def Let_def)
  from offset_to_sg_list_single_entry [OF r] r show ?thesis by simp
qed

theorem offset_to_sg_list_never_returns_witness:
  "upper_bound_base (region_breaks [\<lparr>iov_base = 0x1000, iov_len = 0x1000\<rparr>,
                                    \<lparr>iov_base = 0x3000, iov_len = 0x1000\<rparr>]) 0 0 2 = 0
   \<and> upper_bound_base (region_breaks [\<lparr>iov_base = 0x1000, iov_len = 0x1000\<rparr>,
                                      \<lparr>iov_base = 0x3000, iov_len = 0x1000\<rparr>]) 0x1800 0 2 = 1
   \<and> offset_to_sg_list (locate_range 0 0x1800)
       (region_breaks [\<lparr>iov_base = 0x1000, iov_len = 0x1000\<rparr>,
                       \<lparr>iov_base = 0x3000, iov_len = 0x1000\<rparr>]) = None"
  using offset_to_sg_list_never_returns [of
      "region_breaks [\<lparr>iov_base = 0x1000, iov_len = 0x1000\<rparr>, \<lparr>iov_base = 0x3000, iov_len = 0x1000\<rparr>]"
      "locate_range 0 0x1800"]
  by (simp add: locate_range_def region_breaks_def upper_bound_base.simps)

text \<open>
  Claim C1 at two requests over two regions of 8 MiB each.  LOCATE of all 16 MiB from
  offset 0 spans both regions, and one element comes back: the first region, with the
  second region's 8 MiB reported as excess.  LOCATE of 1 MiB at offset 9 MiB lies in
  the second region, and the element that comes back starts 9 MiB into the first region
  with a length of \<open>2 ^ 64\<close> less 1 MiB.
\<close>

theorem offset_to_sg_list_two_regions:
  "region_breaks [\<lparr>iov_base = 0x7F0000000000, iov_len = 0x800000\<rparr>,
                  \<lparr>iov_base = 0x7F0001000000, iov_len = 0x800000\<rparr>] =
     [\<lparr>iov_base = 0x7F0000000000, iov_len = 0x800000\<rparr>,
      \<lparr>iov_base = 0x7F0001000000, iov_len = 0x1000000\<rparr>]
   \<and> offset_to_sg_list (locate_range 0 0x1000000)
       (region_breaks [\<lparr>iov_base = 0x7F0000000000, iov_len = 0x800000\<rparr>,
                       \<lparr>iov_base = 0x7F0001000000, iov_len = 0x800000\<rparr>]) =
     Some (Inr \<lparr>sg_list = [\<lparr>le_addr = 0x7F0000000000, le_len = 0x800000\<rparr>],
                mr_low = 0x7F0000000000, mr_high = 0x7F0000800000, excess_length = 0x800000\<rparr>)
   \<and> offset_to_sg_list (locate_range 0x900000 0x100000)
       (region_breaks [\<lparr>iov_base = 0x7F0000000000, iov_len = 0x800000\<rparr>,
                       \<lparr>iov_base = 0x7F0001000000, iov_len = 0x800000\<rparr>]) =
     Some (Inr \<lparr>sg_list = [\<lparr>le_addr = 0x7F0000900000, le_len = - 0x100000\<rparr>],
                mr_low = 0x7F0000900000, mr_high = 0x7F0000800000, excess_length = 0x200000\<rparr>)"
  by (simp add: offset_to_sg_list_def locate_range_def region_breaks_def upper_bound_base.simps
        sg_entries_before_last.simps sg_last_entry_def Let_def)

subsection \<open>Shared locks\<close>

text \<open>
  Claim C3 at two GET\_LOCATE requests for the same key followed by two GET\_RELEASE
  requests for its address.  The registry holds one record, whose count goes to 2 and
  back, and one backend unlock is issued, at the second release; but the backend was
  asked for a read lock by each of the two GET\_LOCATE requests.
\<close>

theorem get_locate_twice_locks_twice:
  "locked_values_shared
     (io_response_get_locate store_itf (request_k 0)
        (io_response_get_locate store_itf (request_k 0) (fresh_shard store_k))) 0x1000 =
     Some \<lparr>li_pool = 1, li_key = 0x1000, li_length = 32, li_mr = 7, li_count = 2\<rparr>
   \<and> trace
       (io_response_get_release store_itf (release_request 0x1000)
          (io_response_get_release store_itf (release_request 0x1000)
             (io_response_get_locate store_itf (request_k 0)
                (io_response_get_locate store_itf (request_k 0) (fresh_shard store_k))))) =
     [Kv_lock 1 ''k'' STORE_LOCK_READ 0, Register_memory 0x1000 32,
      Post_send_buffer ((respond1 S_OK)\<lparr>rsp_addr := 0x1000, rsp_key := 7, rsp_data_len := 32\<rparr>),
      Kv_lock 1 ''k'' STORE_LOCK_READ 0, Register_memory 0x1000 32,
      Post_send_buffer ((respond1 S_OK)\<lparr>rsp_addr := 0x1000, rsp_key := 7, rsp_data_len := 32\<rparr>),
      Post_response (respond1 S_OK),
      Kv_unlock 1 0x1000 UNLOCK_FLAGS_FLUSH, Post_response (respond1 S_OK)]
   \<and> locked_values_shared
       (io_response_get_release store_itf (release_request 0x1000)
          (io_response_get_release store_itf (release_request 0x1000)
             (io_response_get_locate store_itf (request_k 0)
                (io_response_get_locate store_itf (request_k 0) (fresh_shard store_k))))) 0x1000
     = None"
  by (simp add: io_response_get_locate_def io_response_get_release_def
        release_locked_value_shared_def add_locked_value_shared_def emplace_lock_info_def
        call_lock_def call_unlock_def call_register_def respond2_def emit_def Let_def split_def
        request_k_def release_request_def fresh_shard_def store_k_def store_itf_def
        store_lock_def store_grant_def store_unlock_def store_register_def KEY_NONE_def)

subsection \<open>PUT\_LOCATE and PUT\_ADVANCE\<close>

text \<open>
  Claim C7 at a PUT\_LOCATE of key \<open>k\<close> that announces 16 bytes while the sentinel's slot
  is 8 bytes long: the lock hands back the 8-byte slot, and the request is answered
  \<^verbatim>\<open>S_OK\<close> with an exclusive-lock record and a pending rename inserted.
\<close>

theorem put_locate_ignores_length_mismatch:
  "fst (store_lock 1 (pending_key ''k'') STORE_LOCK_WRITE 16 store_pending_k) =
     \<lparr>lr_status = S_OK, lr_target = 0x1000, lr_len = 8, lr_handle = 0x1000\<rparr>
   \<and> trace (io_response_put_locate store_itf (request_k 16) (fresh_shard store_pending_k)) =
     [Kv_lock 1 ''___pending_k'' STORE_LOCK_WRITE 16, Register_memory 0x1000 8,
      Post_send_buffer ((respond1 S_OK)\<lparr>rsp_addr := 0x1000, rsp_key := 7\<rparr>)]
   \<and> locked_values_exclusive
       (io_response_put_locate store_itf (request_k 16) (fresh_shard store_pending_k)) 0x1000 =
     Some \<lparr>li_pool = 1, li_key = 0x1000, li_length = 8, li_mr = 7, li_count = 1\<rparr>
   \<and> pending_renames
       (io_response_put_locate store_itf (request_k 16) (fresh_shard store_pending_k)) 0x1000 =
     Some \<lparr>rn_pool = 1, rn_from = ''___pending_k'', rn_to = ''k''\<rparr>"
  by (simp add: io_response_put_locate_def add_locked_value_exclusive_def add_pending_rename_def
        emplace_lock_info_def call_lock_def call_register_def emit_def Let_def split_def
        request_k_def fresh_shard_def store_pending_k_def store_itf_def store_lock_def
        store_grant_def store_unlock_def
        store_register_def pending_key_def KEY_NONE_def)

subsection \<open>Pool requests\<close>

text \<open>
  Claim C8 at a session in which pool \<open>P\<close> is open under handle 5.  A POOL CREATE of
  \<open>P\<close> without the create-only flag adds a reference, but the response carries pool id
  0, not the handle; a POOL OPEN of \<open>P\<close> carries the handle.
\<close>

theorem create_of_open_pool_returns_no_handle:
  "check_for_open_pool (pool_mgr shard_pool_open) ''P'' = Some 5
   \<and> trace (process_message_pool_request store_itf small_config
              \<lparr>prq_op = OP_CREATE, prq_pool_name = ''P'', prq_create_only = False\<rparr>
              shard_pool_open) =
     [Bootstrap_ado 5, Post_pool_response \<lparr>prsp_status = S_OK, prsp_pool_id = 0\<rparr>]
   \<and> pm_refs (pool_mgr (process_message_pool_request store_itf small_config
              \<lparr>prq_op = OP_CREATE, prq_pool_name = ''P'', prq_create_only = False\<rparr>
              shard_pool_open)) 5 = 2
   \<and> trace (process_message_pool_request store_itf small_config
              \<lparr>prq_op = OP_OPEN, prq_pool_name = ''P'', prq_create_only = False\<rparr>
              shard_pool_open) =
     [Bootstrap_ado 5, Post_pool_response \<lparr>prsp_status = S_OK, prsp_pool_id = 5\<rparr>]"
  by (simp add: process_message_pool_request_def check_for_open_pool_def add_reference_def
        register_pool_def bootstrap_ado_if_def fresh_pool_response_def emit_def
        shard_pool_open_def fresh_shard_def empty_pool_manager_def small_config_def
        POOL_ERROR_def)

subsection \<open>Further properties of the handlers\<close>

text \<open>
  PUT\_ADVANCE does compare lengths: when the slot the lock returns has another length
  than the request announces, a response with status \<^verbatim>\<open>E_INVAL\<close> is posted, the guard
  has the backend unlock, and nothing else of the shard changes: no exclusive-lock
  record or pending rename is inserted.
\<close>

theorem put_advance_length_mismatch:
  assumes "\<not> rq_dont_stomp msg"
    and "kv_lock I (rq_pool_id msg) (pending_key (rq_skey msg)) STORE_LOCK_WRITE (rq_value_len msg)
           (world s) = (r, w1)"
    and "lr_len r \<noteq> rq_value_len msg"
  shows "io_response_put_advance I msg s =
           s\<lparr>world := snd (kv_unlock I (rq_pool_id msg) (lr_handle r) UNLOCK_FLAGS_NONE w1),
             trace := trace s @
               [Kv_lock (rq_pool_id msg) (pending_key (rq_skey msg)) STORE_LOCK_WRITE
                  (rq_value_len msg),
                Post_response
                  \<lparr>rsp_status = E_INVAL, rsp_addr = 0, rsp_key = 0, rsp_data_len = 0,
                   rsp_data = []\<rparr>,
                Kv_unlock (rq_pool_id msg) (lr_handle r) UNLOCK_FLAGS_NONE]\<rparr>"
  using assms
  by (simp add: io_response_put_advance_def call_lock_def call_unlock_def locked_key_destroy_def
        respond2_def respond1_def emit_def Let_def split_def)

theorem put_advance_length_mismatch_witness:
  "io_response_put_advance store_itf (request_k 16) (fresh_shard store_pending_k) =
     (fresh_shard store_pending_k)
       \<lparr>trace := [Kv_lock 1 ''___pending_k'' STORE_LOCK_WRITE 16,
                  Post_response
                    \<lparr>rsp_status = E_INVAL, rsp_addr = 0, rsp_key = 0, rsp_data_len = 0,
                     rsp_data = []\<rparr>,
                  Kv_unlock 1 0x1000 UNLOCK_FLAGS_NONE]\<rparr>"
proof -
  let ?r = "\<lparr>lr_status = S_OK, lr_target = 0x1000, lr_len = 8, lr_handle = 0x1000\<rparr>"
  have h1: "\<not> rq_dont_stomp (request_k 16)"
    by (simp add: request_k_def)
  have h2: "kv_lock store_itf (rq_pool_id (request_k 16)) (pending_key (rq_skey (request_k 16)))
              STORE_LOCK_WRITE (rq_value_len (request_k 16)) (world (fresh_shard store_pending_k)) =
            (?r, store_pending_k\<lparr>ms_writers := [0x1000]\<rparr>)"
    by (simp add: store_itf_def store_lock_def store_grant_def request_k_def pending_key_def
          fresh_shard_def store_pending_k_def)
  have h3: "lr_len ?r \<noteq> rq_value_len (request_k 16)"
    by (simp add: request_k_def)
  from put_advance_length_mismatch [OF h1 h2 h3] show ?thesis
    by (simp add: request_k_def pending_key_def fresh_shard_def store_itf_def store_unlock_def
          store_pending_k_def)
qed

text \<open>
  A pool request naming a pool that is open in the session never reaches the backend.
  CREATE with the create-only flag answers \<^verbatim>\<open>E_FAIL\<close> with pool id \<^verbatim>\<open>POOL_ERROR\<close> and
  leaves the pool manager alone; CREATE without the flag and OPEN add one reference;
  OPEN answers with the pool's handle.
\<close>

theorem pool_request_on_open_pool:
  assumes "check_for_open_pool (pool_mgr s) (prq_pool_name msg) = Some pool"
  shows "world (process_message_pool_request I cfg msg s) = world s
       \<and> (prq_op msg = OP_CREATE \<and> prq_create_only msg \<longrightarrow>
            trace (process_message_pool_request I cfg msg s) =
              trace s @ (if pool \<noteq> 0 \<and> ado_enabled cfg then [Bootstrap_ado pool] else [])
                @ [Post_pool_response \<lparr>prsp_status = E_FAIL, prsp_pool_id = POOL_ERROR\<rparr>]
            \<and> pool_mgr (process_message_pool_request I cfg msg s) = pool_mgr s)
       \<and> (prq_op msg = OP_CREATE \<and> \<not> prq_create_only msg \<longrightarrow>
            pool_mgr (process_message_pool_request I cfg msg s) = add_reference pool (pool_mgr s))
       \<and> (prq_op msg = OP_OPEN \<longrightarrow>
            trace (process_message_pool_request I cfg msg s) =
              trace s @ (if pool \<noteq> POOL_ERROR \<and> ado_enabled cfg then [Bootstrap_ado pool] else [])
                @ [Post_pool_response \<lparr>prsp_status = S_OK, prsp_pool_id = pool\<rparr>]
            \<and> pool_mgr (process_message_pool_request I cfg msg s) = add_reference pool (pool_mgr s))"
  using assms
  by (cases "prq_op msg")
     (simp_all add: process_message_pool_request_def bootstrap_ado_if_def fresh_pool_response_def
        emit_def)

theorem pool_request_on_open_pool_witness:
  "check_for_open_pool (pool_mgr shard_pool_open) ''P'' = Some 5
   \<and> trace (process_message_pool_request store_itf small_config
              \<lparr>prq_op = OP_CREATE, prq_pool_name = ''P'', prq_create_only = True\<rparr>
              shard_pool_open) =
     [Bootstrap_ado 5, Post_pool_response \<lparr>prsp_status = E_FAIL, prsp_pool_id = POOL_ERROR\<rparr>]
   \<and> pm_refs (pool_mgr (process_message_pool_request store_itf small_config
              \<lparr>prq_op = OP_CREATE, prq_pool_name = ''P'', prq_create_only = True\<rparr>
              shard_pool_open)) 5 = 1
   \<and> pm_refs (pool_mgr (process_message_pool_request store_itf small_config
              \<lparr>prq_op = OP_OPEN, prq_pool_name = ''P'', prq_create_only = False\<rparr>
              shard_pool_open)) 5 = 2"
proof -
  have h: "check_for_open_pool (pool_mgr shard_pool_open) ''P'' = Some 5"
    by (simp add: check_for_open_pool_def shard_pool_open_def register_pool_def
          empty_pool_manager_def fresh_shard_def)
  have r: "pm_refs (pool_mgr shard_pool_open) 5 = 1"
    by (simp add: shard_pool_open_def register_pool_def empty_pool_manager_def fresh_shard_def)
  from pool_request_on_open_pool [where s = shard_pool_open and pool = 5 and I = store_itf
      and cfg = small_config
      and msg = "\<lparr>prq_op = OP_CREATE, prq_pool_name = ''P'', prq_create_only = True\<rparr>"]
    pool_request_on_open_pool [where s = shard_pool_open and pool = 5 and I = store_itf
      and cfg = small_config
      and msg = "\<lparr>prq_op = OP_OPEN, prq_pool_name = ''P'', prq_create_only = False\<rparr>"]
    h r
  show ?thesis
    by (simp add: small_config_def add_reference_def shard_pool_open_def fresh_shard_def)
qed

text \<open>
  A successful GET\_LOCATE whose target already has a shared-lock record: the backend is
  asked for a read lock and the memory is registered as for any GET\_LOCATE; the record
  keeps its pool, key handle, length and registration, and its count goes up by one.
  The response carries \<^verbatim>\<open>S_OK\<close>, the address, the registration key and the length.
\<close>

theorem get_locate_on_locked_address:
  assumes "kv_lock I (rq_pool_id msg) (rq_skey msg) STORE_LOCK_READ 0 (world s) = (r, w1)"
    and "is_locked (lr_status r)"
    and "lr_handle r \<noteq> KEY_NONE"
    and "register_memory I (lr_target r) (lr_len r) w1 = (Some mr_key, wr)"
    and "locked_values_shared s (lr_target r) = Some i"
  shows "io_response_get_locate I msg s =
           s\<lparr>world := wr,
             locked_values_shared :=
               (locked_values_shared s)(lr_target r \<mapsto> i\<lparr>li_count := li_count i + 1\<rparr>),
             trace := trace s @
               [Kv_lock (rq_pool_id msg) (rq_skey msg) STORE_LOCK_READ 0,
                Register_memory (lr_target r) (lr_len r),
                Post_send_buffer
                  \<lparr>rsp_status = S_OK, rsp_addr = lr_target r, rsp_key = mr_key,
                   rsp_data_len = lr_len r, rsp_data = []\<rparr>]\<rparr>"
  using assms
  by (simp add: io_response_get_locate_def call_lock_def call_register_def
        add_locked_value_shared_def emplace_lock_info_def respond1_def emit_def Let_def split_def)

theorem get_locate_on_locked_address_witness:
  "locked_values_shared (io_response_get_locate store_itf (request_k 0) (fresh_shard store_k)) 0x1000 =
     Some \<lparr>li_pool = 1, li_key = 0x1000, li_length = 32, li_mr = 7, li_count = 1\<rparr>
   \<and> locked_values_shared
       (io_response_get_locate store_itf (request_k 0)
          (io_response_get_locate store_itf (request_k 0) (fresh_shard store_k))) 0x1000 =
     Some \<lparr>li_pool = 1, li_key = 0x1000, li_length = 32, li_mr = 7, li_count = 2\<rparr>
   \<and> ms_readers (world
       (io_response_get_locate store_itf (request_k 0)
          (io_response_get_locate store_itf (request_k 0) (fresh_shard store_k)))) =
     [0x1000, 0x1000]"
proof -
  let ?s1 = "io_response_get_locate store_itf (request_k 0) (fresh_shard store_k)"
  let ?r = "\<lparr>lr_status = S_OK, lr_target = 0x1000, lr_len = 32, lr_handle = 0x1000\<rparr>"
  let ?w = "store_k\<lparr>ms_readers := [0x1000, 0x1000]\<rparr>"
  have w: "world ?s1 = store_k\<lparr>ms_readers := [0x1000]\<rparr>"
    and one: "locked_values_shared ?s1 0x1000 =
        Some \<lparr>li_pool = 1, li_key = 0x1000, li_length = 32, li_mr = 7, li_count = 1\<rparr>"
    by (simp_all add: io_response_get_locate_def call_lock_def call_register_def
          add_locked_value_shared_def emplace_lock_info_def emit_def Let_def split_def
          request_k_def fresh_shard_def store_k_def store_itf_def store_lock_def store_grant_def
          store_register_def KEY_NONE_def)
  have h1: "kv_lock store_itf (rq_pool_id (request_k 0)) (rq_skey (request_k 0)) STORE_LOCK_READ 0
              (world ?s1) = (?r, ?w)"
    unfolding w
    by (simp add: store_itf_def store_lock_def store_grant_def request_k_def store_k_def)
  have h2: "is_locked (lr_status ?r)" and h3: "lr_handle ?r \<noteq> KEY_NONE"
    by (simp_all add: KEY_NONE_def)
  have h4: "register_memory store_itf (lr_target ?r) (lr_len ?r) ?w = (Some 7, ?w)"
    by (simp add: store_itf_def store_register_def store_k_def)
  have h5: "locked_values_shared ?s1 (lr_target ?r) =
        Some \<lparr>li_pool = 1, li_key = 0x1000, li_length = 32, li_mr = 7, li_count = 1\<rparr>"
    using one by simp
  have two: "io_response_get_locate store_itf (request_k 0) ?s1 =
      ?s1\<lparr>world := ?w,
          locked_values_shared :=
            (locked_values_shared ?s1)
              (0x1000 \<mapsto> \<lparr>li_pool = 1, li_key = 0x1000, li_length = 32, li_mr = 7, li_count = 2\<rparr>),
          trace := trace ?s1 @
            [Kv_lock 1 ''k'' STORE_LOCK_READ 0, Register_memory 0x1000 32,
             Post_send_buffer
               \<lparr>rsp_status = S_OK, rsp_addr = 0x1000, rsp_key = 7, rsp_data_len = 32,
                rsp_data = []\<rparr>]\<rparr>"
    using get_locate_on_locked_address [OF h1 h2 h3 h4 h5]
    by (simp add: request_k_def)
  show ?thesis
    unfolding two using one by simp
qed

text \<open>
  GET\_RELEASE: an address with no shared-lock record is answered \<^verbatim>\<open>E_INVAL\<close> with
  nothing changed; the last holder's release has the backend unlock once (with flush)
  and erases the record; any other release only decrements the count.
\<close>

theorem get_release_unlocks_once:
  "(locked_values_shared s (rq_addr msg) = None \<longrightarrow>
      io_response_get_release I msg s =
        s\<lparr>trace := trace s @
            [Post_response
               \<lparr>rsp_status = E_INVAL, rsp_addr = 0, rsp_key = 0, rsp_data_len = 0,
                rsp_data = []\<rparr>]\<rparr>)
   \<and> (locked_values_shared s (rq_addr msg) = Some i \<and> li_count i = 1 \<longrightarrow>
      io_response_get_release I msg s =
        s\<lparr>world := snd (kv_unlock I (li_pool i) (li_key i) UNLOCK_FLAGS_FLUSH (world s)),
          locked_values_shared := (locked_values_shared s)(rq_addr msg := None),
          trace := trace s @
            [Kv_unlock (li_pool i) (li_key i) UNLOCK_FLAGS_FLUSH,
             Post_response
               \<lparr>rsp_status = S_OK, rsp_addr = 0, rsp_key = 0, rsp_data_len = 0,
                rsp_data = []\<rparr>]\<rparr>)
   \<and> (locked_values_shared s (rq_addr msg) = Some i \<and> li_count i \<noteq> 1 \<longrightarrow>
      io_response_get_release I msg s =
        s\<lparr>locked_values_shared :=
            (locked_values_shared s)(rq_addr msg \<mapsto> i\<lparr>li_count := li_count i - 1\<rparr>),
          trace := trace s @
            [Post_response
               \<lparr>rsp_status = S_OK, rsp_addr = 0, rsp_key = 0, rsp_data_len = 0,
                rsp_data = []\<rparr>]\<rparr>)"
  by (simp add: io_response_get_release_def release_locked_value_shared_def call_unlock_def
        respond2_def respond1_def emit_def)

theorem get_release_unlocks_once_witness:
  "io_response_get_release store_itf (release_request 0x1000) (fresh_shard store_k) =
     (fresh_shard store_k)
       \<lparr>trace := [Post_response
                    \<lparr>rsp_status = E_INVAL, rsp_addr = 0, rsp_key = 0, rsp_data_len = 0,
                     rsp_data = []\<rparr>]\<rparr>
   \<and> io_response_get_release store_itf (release_request 0x1000)
       (io_response_get_locate store_itf (request_k 0) (fresh_shard store_k)) =
     (fresh_shard store_k)
       \<lparr>trace := [Kv_lock 1 ''k'' STORE_LOCK_READ 0, Register_memory 0x1000 32,
                  Post_send_buffer
                    \<lparr>rsp_status = S_OK, rsp_addr = 0x1000, rsp_key = 7, rsp_data_len = 32,
                     rsp_data = []\<rparr>,
                  Kv_unlock 1 0x1000 UNLOCK_FLAGS_FLUSH,
                  Post_response
                    \<lparr>rsp_status = S_OK, rsp_addr = 0, rsp_key = 0, rsp_data_len = 0,
                     rsp_data = []\<rparr>]\<rparr>
   \<and> locked_values_shared
       (io_response_get_release store_itf (release_request 0x1000)
          (io_response_get_locate store_itf (request_k 0)
             (io_response_get_locate store_itf (request_k 0) (fresh_shard store_k)))) 0x1000 =
     Some \<lparr>li_pool = 1, li_key = 0x1000, li_length = 32, li_mr = 7, li_count = 1\<rparr>
   \<and> ms_readers (world
       (io_response_get_release store_itf (release_request 0x1000)
          (io_response_get_locate store_itf (request_k 0)
             (io_response_get_locate store_itf (request_k 0) (fresh_shard store_k))))) =
     [0x1000, 0x1000]"
proof -
  let ?i = "\<lparr>li_pool = 1, li_key = 0x1000, li_length = 32, li_mr = 7, li_count = 1 :: 32 word\<rparr>"
  let ?j = "\<lparr>li_pool = 1, li_key = 0x1000, li_length = 32, li_mr = 7, li_count = 2 :: 32 word\<rparr>"
  let ?s1 = "io_response_get_locate store_itf (request_k 0) (fresh_shard store_k)"
  have s1: "?s1 =
    \<lparr>world = store_k\<lparr>ms_readers := [0x1000]\<rparr>,
     locked_values_shared = [0x1000 \<mapsto> ?i],
     locked_values_exclusive = Map.empty, pending_renames = Map.empty,
     pool_mgr = empty_pool_manager,
     trace = [Kv_lock 1 ''k'' STORE_LOCK_READ 0, Register_memory 0x1000 32,
              Post_send_buffer
                \<lparr>rsp_status = S_OK, rsp_addr = 0x1000, rsp_key = 7, rsp_data_len = 32,
                 rsp_data = []\<rparr>]\<rparr>"
    by (simp add: io_response_get_locate_def call_lock_def call_register_def
          add_locked_value_shared_def emplace_lock_info_def emit_def Let_def split_def
          request_k_def fresh_shard_def store_k_def store_itf_def store_lock_def store_grant_def
          store_register_def KEY_NONE_def respond1_def)
  note a = get_release_unlocks_once [where s = "fresh_shard store_k"
      and msg = "release_request 0x1000" and I = store_itf]
  note b = get_release_unlocks_once [where s = ?s1
      and msg = "release_request 0x1000" and I = store_itf and i = ?i]
  let ?s2 = "io_response_get_locate store_itf (request_k 0) ?s1"
  have s2: "?s2 =
    \<lparr>world = store_k\<lparr>ms_readers := [0x1000, 0x1000]\<rparr>,
     locked_values_shared = [0x1000 \<mapsto> ?j],
     locked_values_exclusive = Map.empty, pending_renames = Map.empty,
     pool_mgr = empty_pool_manager,
     trace = [Kv_lock 1 ''k'' STORE_LOCK_READ 0, Register_memory 0x1000 32,
              Post_send_buffer
                \<lparr>rsp_status = S_OK, rsp_addr = 0x1000, rsp_key = 7, rsp_data_len = 32,
                 rsp_data = []\<rparr>,
              Kv_lock 1 ''k'' STORE_LOCK_READ 0, Register_memory 0x1000 32,
              Post_send_buffer
                \<lparr>rsp_status = S_OK, rsp_addr = 0x1000, rsp_key = 7, rsp_data_len = 32,
                 rsp_data = []\<rparr>]\<rparr>"
    unfolding s1
    by (simp add: io_response_get_locate_def call_lock_def call_register_def
          add_locked_value_shared_def emplace_lock_info_def emit_def Let_def split_def
          request_k_def store_k_def store_itf_def store_lock_def store_grant_def
          store_register_def KEY_NONE_def respond1_def)
  note c = get_release_unlocks_once [where s = ?s2
      and msg = "release_request 0x1000" and I = store_itf and i = ?j]
  have first: "io_response_get_release store_itf (release_request 0x1000) (fresh_shard store_k) =
     (fresh_shard store_k)
       \<lparr>trace := [Post_response
                    \<lparr>rsp_status = E_INVAL, rsp_addr = 0, rsp_key = 0, rsp_data_len = 0,
                     rsp_data = []\<rparr>]\<rparr>"
    using a by (simp add: release_request_def fresh_shard_def)
  have second: "io_response_get_release store_itf (release_request 0x1000) ?s1 =
     (fresh_shard store_k)
       \<lparr>trace := [Kv_lock 1 ''k'' STORE_LOCK_READ 0, Register_memory 0x1000 32,
                  Post_send_buffer
                    \<lparr>rsp_status = S_OK, rsp_addr = 0x1000, rsp_key = 7, rsp_data_len = 32,
                     rsp_data = []\<rparr>,
                  Kv_unlock 1 0x1000 UNLOCK_FLAGS_FLUSH,
                  Post_response
                    \<lparr>rsp_status = S_OK, rsp_addr = 0, rsp_key = 0, rsp_data_len = 0,
                     rsp_data = []\<rparr>]\<rparr>"
    using b unfolding s1
    by (simp add: release_request_def fresh_shard_def store_itf_def store_unlock_def store_k_def)
  have third: "locked_values_shared
       (io_response_get_release store_itf (release_request 0x1000) ?s2) 0x1000 = Some ?i
     \<and> ms_readers (world (io_response_get_release store_itf (release_request 0x1000) ?s2)) =
       [0x1000, 0x1000]"
    using c unfolding s2
    by (simp add: release_request_def store_k_def)
  show ?thesis
    using first second third by simp
qed

end
